theory Spec2Isabelle
  imports Complex_Main "HOL-Library.AList"
begin

section \<open>Values, configuration objects and the object store\<close>

text \<open>
  The program is \<^verbatim>\<open>ssnb/algos/td3_optuna_proto/optuna.py\<close>. Its configuration is an
  OmegaConf \<^verbatim>\<open>DictConfig\<close>: a tree of dictionary objects that the code reads and
  writes by attribute. Dictionary objects live in a store and are referred to by address,
  because \<^verbatim>\<open>cfg.copy()\<close> copies one object and shares the objects below it.

  Python values: \<open>VNone\<close>, unbounded integers, floats (a real number or the NaN
  sentinel), lists, and references to dictionary objects.
\<close>

type_synonym addr = nat

datatype val =
    VNone
  | VInt int
  | VFloat real
  | VNaN
  | VList "val list"
  | VRef addr

datatype exn =
    AttributeError
  | AssertionError
  | TypeError
  | ValueError
  | ZeroDivisionError
  | TrialPruned
  | KeyboardInterrupt
  | RuntimeError

text \<open>A dictionary object: its keys in insertion order.\<close>

type_synonym node = "(string \<times> val) list"

type_synonym heap = "addr \<Rightarrow> node option"

text \<open>
  The agent object returned by a training step: \<^verbatim>\<open>agent.is_eval\<close>,
  \<^verbatim>\<open>agent.mean\<close>, \<^verbatim>\<open>agent.last_mean_reward\<close>.
\<close>

record agent =
  is_eval :: bool
  mean :: val
  last_mean_reward :: val

text \<open>
  The Optuna trial object. \<open>int_draw\<close> and \<open>float_draw\<close> are the trial's source of
  random draws, one raw draw per parameter name; \<open>params\<close> is \<^verbatim>\<open>trial.params\<close>, the
  record of suggested parameters in the order they were suggested; \<open>reported\<close> holds the
  \<^verbatim>\<open>trial.report(value, step)\<close> observations; \<open>pruner\<close> is the study's pruning policy
  as this trial sees it (\<^verbatim>\<open>trial.should_prune()\<close>).
\<close>

record trial =
  number :: nat
  int_draw :: "string \<Rightarrow> int"
  float_draw :: "string \<Rightarrow> real"
  params :: "(string \<times> val) list"
  reported :: "(nat \<times> val) list"
  pruner :: "(nat \<times> val) list \<Rightarrow> bool"

text \<open>
  The object store with its next free address, and the log of calls made to the external
  training function (the store at the time of the call, the configuration object passed,
  the agent passed). The state one trial runs in is the store and the trial object.
\<close>

record store =
  heap :: heap
  fresh :: addr
  calls :: "(heap \<times> val \<times> agent option) list"

record state = store +
  trial :: trial

text \<open>A statement either raises or returns a value; the state survives both.\<close>

type_synonym ('a, 's) cmd = "'s \<Rightarrow> (exn + 'a) \<times> 's"

definition ret :: "'a \<Rightarrow> ('a, 's) cmd" where
  "ret x = (\<lambda>s. (Inr x, s))"

definition raise :: "exn \<Rightarrow> ('a, 's) cmd" where
  "raise e = (\<lambda>s. (Inl e, s))"

definition bind :: "('a, 's) cmd \<Rightarrow> ('a \<Rightarrow> ('b, 's) cmd) \<Rightarrow> ('b, 's) cmd" where
  "bind m f = (\<lambda>s. case m s of (Inl e, s') \<Rightarrow> (Inl e, s') | (Inr x, s') \<Rightarrow> f x s')"

subsection \<open>Attribute access on configuration objects\<close>

text \<open>
  \<^verbatim>\<open>obj.key\<close>: only a dictionary object has attributes; a missing key raises
  (OmegaConf's \<^verbatim>\<open>ConfigAttributeError\<close> is an \<^verbatim>\<open>AttributeError\<close>), and so does an
  attribute of a number, a list or \<^verbatim>\<open>None\<close>.
\<close>

definition getattr :: "val \<Rightarrow> string \<Rightarrow> (val, 'z store_scheme) cmd" where
  "getattr obj k = (\<lambda>s.
     case obj of
       VRef a \<Rightarrow>
         (case heap s a of
            None \<Rightarrow> (Inl AttributeError, s)
          | Some n \<Rightarrow>
              (case map_of n k of
                 None \<Rightarrow> (Inl AttributeError, s)
               | Some v \<Rightarrow> (Inr v, s)))
     | _ \<Rightarrow> (Inl AttributeError, s))"

text \<open>
  \<^verbatim>\<open>obj.key = v\<close>: an existing key keeps its place, a new key is added at the end.
\<close>

definition setattr :: "val \<Rightarrow> string \<Rightarrow> val \<Rightarrow> (unit, 'z store_scheme) cmd" where
  "setattr obj k v = (\<lambda>s.
     case obj of
       VRef a \<Rightarrow>
         (case heap s a of
            None \<Rightarrow> (Inl AttributeError, s)
          | Some n \<Rightarrow> (Inr (), s\<lparr>heap := (heap s)(a \<mapsto> AList.update k v n)\<rparr>))
     | _ \<Rightarrow> (Inl AttributeError, s))"

text \<open>\<^verbatim>\<open>obj.k1.k2...\<close> read left to right.\<close>

fun getpath :: "val \<Rightarrow> string list \<Rightarrow> (val, 'z store_scheme) cmd" where
  "getpath obj [] = ret obj"
| "getpath obj (k # ks) = bind (getattr obj k) (\<lambda>v. getpath v ks)"

text \<open>
  \<^verbatim>\<open>cfg.copy()\<close>: OmegaConf defines \<^verbatim>\<open>DictConfig.copy\<close> as \<^verbatim>\<open>copy.copy(self)\<close>,
  and \<^verbatim>\<open>DictConfig.__copy__\<close> builds a new dictionary object that holds a copy of each
  scalar value and the very same object for each nested dictionary. So the copy is a new
  object with the same keys, and a value that is a reference is shared, as with
  \<^verbatim>\<open>dict.copy\<close>.
\<close>

definition copy :: "val \<Rightarrow> (val, 'z store_scheme) cmd" where
  "copy obj = (\<lambda>s.
     case obj of
       VRef a \<Rightarrow>
         (case heap s a of
            None \<Rightarrow> (Inl AttributeError, s)
          | Some n \<Rightarrow>
              (Inr (VRef (fresh s)),
               s\<lparr>heap := (heap s)(fresh s \<mapsto> n), fresh := Suc (fresh s)\<rparr>))
     | _ \<Rightarrow> (Inl AttributeError, s))"

subsection \<open>Arithmetic of the source\<close>

text \<open>
  \<^verbatim>\<open>2 ** e\<close> for an integer \<open>e\<close>: an integer when \<open>e\<close> is not negative, a float
  otherwise.
\<close>

definition pow2_int :: "int \<Rightarrow> val" where
  "pow2_int i = (if 0 \<le> i then VInt (2 ^ nat i) else VFloat (1 / 2 ^ nat (- i)))"

definition pow2 :: "val \<Rightarrow> (val, 's) cmd" where
  "pow2 e = (case e of VInt i \<Rightarrow> ret (pow2_int i) | _ \<Rightarrow> raise TypeError)"

text \<open>The number a numeric value stands for.\<close>

fun num :: "val \<Rightarrow> real option" where
  "num (VInt i) = Some (of_int i)"
| "num (VFloat r) = Some r"
| "num _ = None"

text \<open>
  \<^verbatim>\<open>x // y\<close>: floor division; on two integers the result is an integer, with a float
  operand it is a float; division by zero raises.
\<close>

definition floordiv :: "val \<Rightarrow> val \<Rightarrow> (val, 's) cmd" where
  "floordiv x y =
     (case (x, y) of
        (VInt a, VInt b) \<Rightarrow> if b = 0 then raise ZeroDivisionError else ret (VInt (a div b))
      | (VNaN, _) \<Rightarrow> (case y of VInt b \<Rightarrow> if b = 0 then raise ZeroDivisionError else ret VNaN
                      | VFloat b \<Rightarrow> if b = 0 then raise ZeroDivisionError else ret VNaN
                      | VNaN \<Rightarrow> ret VNaN
                      | _ \<Rightarrow> raise TypeError)
      | (_, VNaN) \<Rightarrow> (case num x of Some a \<Rightarrow> ret VNaN | None \<Rightarrow> raise TypeError)
      | _ \<Rightarrow>
        (case (num x, num y) of
           (Some a, Some b) \<Rightarrow>
             if b = 0 then raise ZeroDivisionError else ret (VFloat (of_int \<lfloor>a / b\<rfloor>))
         | _ \<Rightarrow> raise TypeError))"

text \<open>\<^verbatim>\<open>int(x)\<close>: truncation toward zero; NaN raises \<^verbatim>\<open>ValueError\<close>.\<close>

definition to_int :: "val \<Rightarrow> (val, 's) cmd" where
  "to_int x =
     (case x of
        VInt i \<Rightarrow> ret (VInt i)
      | VFloat r \<Rightarrow> ret (VInt (if 0 \<le> r then \<lfloor>r\<rfloor> else \<lceil>r\<rceil>))
      | VNaN \<Rightarrow> raise ValueError
      | _ \<Rightarrow> raise TypeError)"

subsection \<open>The trial's suggest interface\<close>

text \<open>
  \<^verbatim>\<open>trial.suggest_int(name, low, high)\<close> is Optuna's: it raises \<^verbatim>\<open>ValueError\<close> when
  \<open>low > high\<close>, and otherwise returns an integer of \<open>[low, high]\<close> and records it in
  \<^verbatim>\<open>trial.params\<close> under \<open>name\<close>. The trial's raw draw for \<open>name\<close> is folded into
  the interval, so every integer of \<open>[low, high]\<close> is returned for some draw and no
  other value for any. The name is recorded as given, the value as drawn (for a
  power-of-two parameter the exponent).
\<close>

definition int_in_range :: "int \<Rightarrow> int \<Rightarrow> int \<Rightarrow> int" where
  "int_in_range l h d = l + d mod (h - l + 1)"

definition suggest_int :: "string \<Rightarrow> val \<Rightarrow> val \<Rightarrow> (val, state) cmd" where
  "suggest_int name low high = (\<lambda>s.
     case (low, high) of
       (VInt l, VInt h) \<Rightarrow>
         if h < l then (Inl ValueError, s)
         else
           let v = VInt (int_in_range l h (int_draw (trial s) name))
           in (Inr v, s\<lparr>trial := (trial s)\<lparr>params := AList.update name v (params (trial s))\<rparr>\<rparr>)
     | _ \<Rightarrow> (Inl TypeError, s))"

text \<open>
  \<^verbatim>\<open>trial.suggest_float(name, low, high, log=True)\<close>: \<^verbatim>\<open>ValueError\<close> when
  \<open>low > high\<close> or \<open>low \<le> 0\<close>; otherwise a float of \<open>[low, high]\<close>, recorded under
  \<open>name\<close>. The raw draw is clamped into the interval.
\<close>

definition float_in_range :: "real \<Rightarrow> real \<Rightarrow> real \<Rightarrow> real" where
  "float_in_range l h d = max l (min h d)"

definition suggest_float_log :: "string \<Rightarrow> val \<Rightarrow> val \<Rightarrow> (val, state) cmd" where
  "suggest_float_log name low high = (\<lambda>s.
     case (num low, num high) of
       (Some l, Some h) \<Rightarrow>
         if h < l \<or> l \<le> 0 then (Inl ValueError, s)
         else
           let v = VFloat (float_in_range l h (float_draw (trial s) name))
           in (Inr v, s\<lparr>trial := (trial s)\<lparr>params := AList.update name v (params (trial s))\<rparr>\<rparr>)
     | _ \<Rightarrow> (Inl TypeError, s))"

section \<open>\<^verbatim>\<open>sample_td3_params\<close>\<close>

text \<open>
  One sampling statement of the source,
  \<^verbatim>\<open>suggest(name, cfg.<path>.min, cfg.<path>.max)\<close>: the bounds are read from the base
  configuration \<open>cfg\<close>, lower bound first.
\<close>

definition suggest_int_at :: "val \<Rightarrow> string \<Rightarrow> string list \<Rightarrow> (val, state) cmd" where
  "suggest_int_at cfg name path =
     bind (getpath cfg (path @ [''min''])) (\<lambda>lo.
     bind (getpath cfg (path @ [''max''])) (\<lambda>hi.
     suggest_int name lo hi))"

definition suggest_float_at :: "val \<Rightarrow> string \<Rightarrow> string list \<Rightarrow> (val, state) cmd" where
  "suggest_float_at cfg name path =
     bind (getpath cfg (path @ [''min''])) (\<lambda>lo.
     bind (getpath cfg (path @ [''max''])) (\<lambda>hi.
     suggest_float_log name lo hi))"

text \<open>\<^verbatim>\<open>params.<path>.<key> = v\<close>: the target object is looked up after \<open>v\<close> is computed.\<close>

definition assign ::
  "val \<Rightarrow> string list \<Rightarrow> string \<Rightarrow> val \<Rightarrow> (unit, 'z store_scheme) cmd" where
  "assign obj path k v = bind (getpath obj path) (\<lambda>target. setattr target k v)"

definition sample_td3_params :: "val \<Rightarrow> (val, state) cmd" where
  "sample_td3_params cfg =
     bind (copy cfg) (\<lambda>params.
     bind (suggest_float_at cfg ''discount_factor'' [''algorithm'', ''discount_factor'']) (\<lambda>v.
     bind (assign params [''algorithm''] ''discount_factor'' v) (\<lambda>_.
     bind (suggest_int_at cfg ''n_steps'' [''algorithm'', ''n_steps'']) (\<lambda>e.
     bind (pow2 e) (\<lambda>n_steps.
     bind (suggest_int_at cfg ''buffer_size'' [''algorithm'', ''buffer_size'']) (\<lambda>v.
     bind (assign params [''algorithm''] ''buffer_size'' v) (\<lambda>_.
     bind (suggest_int_at cfg ''batch_size'' [''algorithm'', ''batch_size'']) (\<lambda>v.
     bind (assign params [''algorithm''] ''batch_size'' v) (\<lambda>_.
     bind (suggest_float_at cfg ''tau_target'' [''algorithm'', ''tau_target'']) (\<lambda>v.
     bind (assign params [''algorithm''] ''tau_target'' v) (\<lambda>_.
     bind (suggest_float_at cfg ''action_std'' [''algorithm'', ''action_noise'']) (\<lambda>v.
     bind (assign params [''algorithm''] ''action_noise'' v) (\<lambda>_.
     bind (suggest_int_at cfg ''actor_hidden_size''
             [''algorithm'', ''architecture'', ''actor_hidden_size'']) (\<lambda>e.
     bind (pow2 e) (\<lambda>ahs.
     bind (assign params [''algorithm'', ''architecture''] ''actor_hidden_size''
             (VList [ahs, ahs])) (\<lambda>_.
     bind (suggest_int_at cfg ''critic_hidden_size''
             [''algorithm'', ''architecture'', ''critic_hidden_size'']) (\<lambda>e.
     bind (pow2 e) (\<lambda>chs.
     bind (assign params [''algorithm'', ''architecture''] ''critic_hidden_size''
             (VList [chs, chs])) (\<lambda>_.
     bind (suggest_float_at cfg ''actor_lr'' [''actor_optimizer'', ''lr'']) (\<lambda>v.
     bind (assign params [''actor_optimizer''] ''lr'' v) (\<lambda>_.
     bind (suggest_float_at cfg ''critic_lr'' [''critic_optimizer'', ''lr'']) (\<lambda>v.
     bind (assign params [''critic_optimizer''] ''lr'' v) (\<lambda>_.
     bind (assign params [''algorithm''] ''n_steps'' n_steps) (\<lambda>_.
     bind (getpath params [''algorithm'', ''n_timesteps'']) (\<lambda>n_timesteps.
     bind (floordiv n_timesteps n_steps) (\<lambda>q.
     bind (to_int q) (\<lambda>max_epochs.
     bind (assign params [''algorithm''] ''max_epochs'' max_epochs) (\<lambda>_.
     ret params))))))))))))))))))))))))))))"

section \<open>\<^verbatim>\<open>objective\<close>\<close>

text \<open>
  The external training function named by \<^verbatim>\<open>run_algo\<close> and called through
  \<^verbatim>\<open>eval(run_algo + "(config, agent)")\<close>: it reads the configuration object in the
  store and the agent passed, and either raises or returns an agent.
\<close>

type_synonym run_algo = "heap \<Rightarrow> val \<Rightarrow> agent option \<Rightarrow> exn + agent"

text \<open>
  The call statement \<^verbatim>\<open>eval(run_algo + "(config, agent)")\<close>: the call is logged, an
  exception of the training function is raised here, and the agent it returns is dropped,
  since the statement assigns nothing.
\<close>

definition call_training :: "run_algo \<Rightarrow> val \<Rightarrow> agent option \<Rightarrow> (unit, 'z store_scheme) cmd" where
  "call_training run_algo config agent = (\<lambda>s.
     let s' = s\<lparr>calls := calls s @ [(heap s, config, agent)]\<rparr>
     in case run_algo (heap s) config agent of
          Inl e \<Rightarrow> (Inl e, s')
        | Inr trained \<Rightarrow> (Inr (), s'))"

text \<open>\<^verbatim>\<open>agent.field\<close> on the local variable \<^verbatim>\<open>agent\<close>, which may hold \<^verbatim>\<open>None\<close>.\<close>

definition agent_attr :: "agent option \<Rightarrow> (agent \<Rightarrow> 'a) \<Rightarrow> ('a, 's) cmd" where
  "agent_attr agent field =
     (case agent of None \<Rightarrow> raise AttributeError | Some a \<Rightarrow> ret (field a))"

text \<open>\<^verbatim>\<open>trial.report(value, step)\<close> and \<^verbatim>\<open>trial.should_prune()\<close>.\<close>

definition report :: "val \<Rightarrow> nat \<Rightarrow> (unit, state) cmd" where
  "report v step = (\<lambda>s.
     (Inr (), s\<lparr>trial := (trial s)\<lparr>reported := reported (trial s) @ [(step, v)]\<rparr>\<rparr>))"

definition should_prune :: "(bool, state) cmd" where
  "should_prune = (\<lambda>s. (Inr (pruner (trial s) (reported (trial s))), s))"

text \<open>\<^verbatim>\<open>range(n)\<close> and the \<^verbatim>\<open>for\<close> loop over it.\<close>

definition py_range :: "val \<Rightarrow> (nat list, 's) cmd" where
  "py_range n = (case n of VInt i \<Rightarrow> ret [0..<nat i] | _ \<Rightarrow> raise TypeError)"

fun for_each :: "nat list \<Rightarrow> (nat \<Rightarrow> (unit, 's) cmd) \<Rightarrow> (unit, 's) cmd" where
  "for_each [] body = ret ()"
| "for_each (x # xs) body = bind (body x) (\<lambda>_. for_each xs body)"

text \<open>\<^verbatim>\<open>try: m except e: h\<close>.\<close>

definition try_except :: "('a, 's) cmd \<Rightarrow> exn \<Rightarrow> ('a, 's) cmd \<Rightarrow> ('a, 's) cmd" where
  "try_except m e h = (\<lambda>s.
     case m s of
       (Inl e', s') \<Rightarrow> if e' = e then h s' else (Inl e', s')
     | (Inr x, s') \<Rightarrow> (Inr x, s'))"

text \<open>The body of the training loop, for one \<^verbatim>\<open>epoch\<close>.\<close>

definition epoch_body :: "run_algo \<Rightarrow> val \<Rightarrow> agent option \<Rightarrow> nat \<Rightarrow> (unit, state) cmd" where
  "epoch_body run_algo config agent epoch =
     bind (call_training run_algo config agent) (\<lambda>_.
     bind (agent_attr agent is_eval) (\<lambda>evaluated.
     if evaluated then
       bind (agent_attr agent mean) (\<lambda>m.
       bind (report m epoch) (\<lambda>_.
       bind should_prune (\<lambda>p.
       if p then raise TrialPruned else ret ())))
     else ret ()))"

text \<open>
  The \<^verbatim>\<open>try\<close> block yields the flag \<^verbatim>\<open>nan_encountered\<close>: \<open>False\<close> when the block
  ends, \<open>True\<close> from the handler of \<^verbatim>\<open>AssertionError\<close>. The local variable
  \<^verbatim>\<open>agent\<close> is assigned \<^verbatim>\<open>None\<close> and nothing else.
\<close>

definition objective :: "val \<Rightarrow> run_algo \<Rightarrow> (val, state) cmd" where
  "objective cfg run_algo =
     bind (sample_td3_params cfg) (\<lambda>config.
     let agent = None in
     bind (try_except
             (bind (getpath config [''algorithm'', ''max_epoch'']) (\<lambda>max.
              bind (assign config [''algorithm''] ''max_epoch'' (VInt 1)) (\<lambda>_.
              bind (getpath config [''algorithm'', ''max_epoch'']) (\<lambda>n.
              bind (py_range n) (\<lambda>epochs.
              bind (for_each epochs (epoch_body run_algo config agent)) (\<lambda>_.
              bind (assign config [''algorithm''] ''max_epoch'' max) (\<lambda>_.
              ret False)))))))
             AssertionError
             (ret True)) (\<lambda>nan_encountered.
     if nan_encountered then ret VNaN
     else agent_attr agent last_mean_reward))"

section \<open>The pruning policy\<close>

text \<open>
  Modelled from the spec: Optuna's \<^verbatim>\<open>MedianPruner\<close> is not part of the sources.
  Section 4.3 of the specification: a trial may be pruned once its reported score at a
  step falls below the median of the scores reported by other trials at the same step,
  but only after the configured number of warm-up steps for that trial and only after the
  configured number of warm-up trials for the study.
\<close>

record median_pruner =
  mp_n_startup_trials :: int
  mp_n_warmup_steps :: int

definition MedianPruner :: "val \<Rightarrow> val \<Rightarrow> (median_pruner, 's) cmd" where
  "MedianPruner n_startup n_warmup =
     (case (n_startup, n_warmup) of
        (VInt n, VInt w) \<Rightarrow> ret \<lparr>mp_n_startup_trials = n, mp_n_warmup_steps = w\<rparr>
      | _ \<Rightarrow> raise TypeError)"

definition median :: "real list \<Rightarrow> real option" where
  "median xs =
     (if xs = [] then None
      else
        let ys = sort xs; n = length ys
        in Some (if odd n then ys ! (n div 2)
                 else (ys ! (n div 2 - 1) + ys ! (n div 2)) / 2))"

text \<open>The scores the other trials reported at \<open>step\<close>.\<close>

definition scores_at :: "nat \<Rightarrow> (nat \<times> val) list list \<Rightarrow> real list" where
  "scores_at step others =
     concat (map (\<lambda>rs. case map_of rs step of
                          None \<Rightarrow> []
                        | Some v \<Rightarrow> (case num v of None \<Rightarrow> [] | Some r \<Rightarrow> [r])) others)"

text \<open>
  The decision for a trial with observations \<open>reports\<close>, the last one being the current
  step, in a study whose other trials reported \<open>others\<close>.
\<close>

definition prune :: "median_pruner \<Rightarrow> (nat \<times> val) list list \<Rightarrow> (nat \<times> val) list \<Rightarrow> bool" where
  "prune P others reports =
     (case reports of
        [] \<Rightarrow> False
      | _ \<Rightarrow>
        let step = fst (last reports); v = snd (last reports)
        in if int (length others) < mp_n_startup_trials P then False
           else if int step < mp_n_warmup_steps P then False
           else (case (num v, median (scores_at step others)) of
                   (Some r, Some m) \<Rightarrow> r < m
                 | _ \<Rightarrow> False))"

section \<open>The study and \<^verbatim>\<open>tune\<close>\<close>

datatype trial_state = COMPLETE | PRUNED | FAIL

record frozen_trial =
  ft_number :: nat
  ft_state :: trial_state
  ft_value :: "val option"
  ft_params :: "(string \<times> val) list"
  ft_reported :: "(nat \<times> val) list"

text \<open>
  The study object: the store it runs on, the random draws its sampler hands to the trial
  of each number, the pruner, and \<^verbatim>\<open>study.trials\<close>.
\<close>

record study_state = store +
  draws :: "nat \<Rightarrow> (string \<Rightarrow> int) \<times> (string \<Rightarrow> real)"
  study_pruner :: median_pruner
  trials :: "frozen_trial list"

definition completed :: "frozen_trial list \<Rightarrow> frozen_trial list" where
  "completed ts = filter (\<lambda>t. ft_state t = COMPLETE) ts"

text \<open>
  Modelled from the spec: Optuna's \<^verbatim>\<open>study.optimize\<close> is not part of the sources.
  Sections 4.4 and 7 of the specification: until the trial budget or an external interrupt
  is reached, draw a new trial, execute the objective on it and record the outcome. A
  returned number completes the trial; a NaN or non-numeric score marks it failed and the
  study continues; \<^verbatim>\<open>TrialPruned\<close> marks it pruned and the study continues; any other
  exception marks it failed and propagates. Trials run one after the other
  (\<^verbatim>\<open>n_jobs\<close> and the wall-clock timeout are not modelled).
\<close>

definition run_trial :: "(val, state) cmd \<Rightarrow> (unit, study_state) cmd" where
  "run_trial func = (\<lambda>S.
     let k = length (trials S);
         others = map ft_reported (completed (trials S));
         t = \<lparr>number = k, int_draw = fst (draws S k), float_draw = snd (draws S k),
              params = [], reported = [], pruner = prune (study_pruner S) others\<rparr>;
         (r, s') = func \<lparr>heap = heap S, fresh = fresh S, calls = calls S, trial = t\<rparr>;
         S' = S\<lparr>heap := heap s', fresh := fresh s', calls := calls s'\<rparr>;
         done = (\<lambda>st v. S'\<lparr>trials := trials S @
                   [\<lparr>ft_number = k, ft_state = st, ft_value = v,
                     ft_params = params (trial s'), ft_reported = reported (trial s')\<rparr>]\<rparr>)
     in case r of
          Inr v \<Rightarrow>
            (case num v of
               Some x \<Rightarrow> (Inr (), done COMPLETE (Some v))
             | None \<Rightarrow> (Inr (), done FAIL None))
        | Inl e \<Rightarrow>
            if e = TrialPruned then (Inr (), done PRUNED None)
            else (Inl e, done FAIL None))"

fun optimize :: "nat \<Rightarrow> (val, state) cmd \<Rightarrow> (unit, study_state) cmd" where
  "optimize 0 func = ret ()"
| "optimize (Suc n) func = bind (run_trial func) (\<lambda>_. optimize n func)"

text \<open>
  \<^verbatim>\<open>study.best_trial\<close> under \<^verbatim>\<open>direction="maximize"\<close>: the completed trial of greatest
  value, the earliest of them on a tie; \<^verbatim>\<open>ValueError\<close> when no trial is completed.
\<close>

definition value_of :: "frozen_trial \<Rightarrow> real" where
  "value_of t = (case ft_value t of None \<Rightarrow> 0 | Some v \<Rightarrow> (case num v of None \<Rightarrow> 0 | Some r \<Rightarrow> r))"

fun best_of :: "frozen_trial \<Rightarrow> frozen_trial list \<Rightarrow> frozen_trial" where
  "best_of t [] = t"
| "best_of t (u # us) = best_of (if value_of t < value_of u then u else t) us"

definition best_trial :: "(frozen_trial, study_state) cmd" where
  "best_trial = (\<lambda>S.
     case completed (trials S) of
       [] \<Rightarrow> (Inl ValueError, S)
     | t # ts \<Rightarrow> (Inr (best_of t ts), S))"

text \<open>
  What \<^verbatim>\<open>tune\<close> reports: the printed number of finished trials, the best trial whose
  value, parameters and attributes are printed, and the rows of the exported trial table.
\<close>

record summary =
  n_finished :: nat
  best :: frozen_trial
  table :: "frozen_trial list"

text \<open>\<^verbatim>\<open>cfg.study.n_trials\<close> as the number of trials to run.\<close>

definition budget :: "val \<Rightarrow> (nat, 's) cmd" where
  "budget n = (case n of VInt i \<Rightarrow> ret (nat i) | _ \<Rightarrow> raise TypeError)"

text \<open>Line 93 of the source: the pruner \<^verbatim>\<open>tune\<close> constructs.\<close>

definition make_pruner :: "val \<Rightarrow> (median_pruner, 'z store_scheme) cmd" where
  "make_pruner cfg =
     bind (getpath cfg [''study'', ''n_startup_trials'']) (\<lambda>n_startup.
     bind (getpath cfg [''study'', ''n_warmup_steps'']) (\<lambda>n_warmup.
     bind (floordiv n_warmup (VInt 3)) (\<lambda>w.
     MedianPruner n_startup w)))"

text \<open>
  \<^verbatim>\<open>tune(objective, cfg, run_algo)\<close>, the objective being the argument
  \<open>objective_fn\<close>. The sampler reads
  \<^verbatim>\<open>cfg.study.n_startup_trials\<close>; its draws are those of the study. The charts handed
  to the renderer are not modelled.
\<close>

definition tune ::
  "(val \<Rightarrow> run_algo \<Rightarrow> (val, state) cmd) \<Rightarrow> val \<Rightarrow> run_algo \<Rightarrow> (summary, study_state) cmd" where
  "tune objective_fn cfg run_algo =
     bind (getpath cfg [''study'', ''n_startup_trials'']) (\<lambda>sampler_startup.
     bind (make_pruner cfg) (\<lambda>pruner.
     bind (\<lambda>S. (Inr (), S\<lparr>study_pruner := pruner, trials := []\<rparr>)) (\<lambda>_.
     bind (try_except
             (bind (getpath cfg [''study'', ''n_trials'']) (\<lambda>n_trials.
              bind (getpath cfg [''study'', ''n_jobs'']) (\<lambda>n_jobs.
              bind (getpath cfg [''study'', ''timeout'']) (\<lambda>timeout.
              bind (budget n_trials) (\<lambda>n.
              optimize n (objective_fn cfg run_algo))))))
             KeyboardInterrupt
             (ret ())) (\<lambda>_.
     bind (\<lambda>S. (Inr (length (trials S)), S)) (\<lambda>finished.
     bind best_trial (\<lambda>best_t.
     bind (\<lambda>S. (Inr (trials S), S)) (\<lambda>rows.
     ret \<lparr>n_finished = finished, best = best_t, table = rows\<rparr>)))))))"

section \<open>The base configuration\<close>

text \<open>
  The configuration file read by \<^verbatim>\<open>main\<close> is not part of the sources; its shape is
  taken from the attributes the code reads. Every tunable hyperparameter is a pair of
  bounds \<^verbatim>\<open>{min, max}\<close>; \<^verbatim>\<open>algorithm.n_timesteps\<close> and
  \<^verbatim>\<open>algorithm.max_epoch\<close> are integers; \<^verbatim>\<open>study\<close> holds the study's settings.
  The key \<^verbatim>\<open>algorithm.max_epoch\<close> is the one \<^verbatim>\<open>objective\<close> reads before its loop;
  \<^verbatim>\<open>algorithm.max_epochs\<close> is absent until \<^verbatim>\<open>sample_td3_params\<close> writes it.
\<close>

record 'a bounds =
  lo :: 'a
  hi :: 'a

record study_cfg =
  n_startup_trials :: int
  n_warmup_steps :: int
  n_trials :: nat
  n_jobs :: int
  timeout :: int

record base =
  discount_factor :: "real bounds"
  n_steps :: "int bounds"
  buffer_size :: "int bounds"
  batch_size :: "int bounds"
  tau_target :: "real bounds"
  action_noise :: "real bounds"
  actor_hidden_size :: "int bounds"
  critic_hidden_size :: "int bounds"
  actor_lr :: "real bounds"
  critic_lr :: "real bounds"
  n_timesteps :: int
  max_epoch :: int
  study :: study_cfg

definition fnode :: "real bounds \<Rightarrow> node" where
  "fnode b = [(''min'', VFloat (lo b)), (''max'', VFloat (hi b))]"

definition inode :: "int bounds \<Rightarrow> node" where
  "inode b = [(''min'', VInt (lo b)), (''max'', VInt (hi b))]"

definition root_node :: node where
  "root_node =
     [(''algorithm'', VRef 1), (''actor_optimizer'', VRef 11),
      (''critic_optimizer'', VRef 13), (''study'', VRef 15)]"

definition algorithm_node :: "base \<Rightarrow> node" where
  "algorithm_node b =
     [(''discount_factor'', VRef 2), (''n_steps'', VRef 3), (''buffer_size'', VRef 4),
      (''batch_size'', VRef 5), (''tau_target'', VRef 6), (''action_noise'', VRef 7),
      (''architecture'', VRef 8), (''n_timesteps'', VInt (n_timesteps b)),
      (''max_epoch'', VInt (max_epoch b))]"

definition architecture_node :: node where
  "architecture_node = [(''actor_hidden_size'', VRef 9), (''critic_hidden_size'', VRef 10)]"

definition actor_optimizer_node :: node where
  "actor_optimizer_node = [(''lr'', VRef 12)]"

definition critic_optimizer_node :: node where
  "critic_optimizer_node = [(''lr'', VRef 14)]"

definition study_node :: "study_cfg \<Rightarrow> node" where
  "study_node c =
     [(''n_startup_trials'', VInt (n_startup_trials c)),
      (''n_warmup_steps'', VInt (n_warmup_steps c)),
      (''n_trials'', VInt (int (n_trials c))),
      (''n_jobs'', VInt (n_jobs c)),
      (''timeout'', VInt (timeout c))]"

text \<open>
  \<^verbatim>\<open>OmegaConf.load\<close>: one dictionary object per mapping of the file, the root at
  address 0, no object shared.
\<close>

definition load :: "base \<Rightarrow> heap" where
  "load b = Map.empty
     (0 \<mapsto> root_node,
      1 \<mapsto> algorithm_node b,
      2 \<mapsto> fnode (discount_factor b),
      3 \<mapsto> inode (n_steps b),
      4 \<mapsto> inode (buffer_size b),
      5 \<mapsto> inode (batch_size b),
      6 \<mapsto> fnode (tau_target b),
      7 \<mapsto> fnode (action_noise b),
      8 \<mapsto> architecture_node,
      9 \<mapsto> inode (actor_hidden_size b),
      10 \<mapsto> inode (critic_hidden_size b),
      11 \<mapsto> actor_optimizer_node,
      12 \<mapsto> fnode (actor_lr b),
      13 \<mapsto> critic_optimizer_node,
      14 \<mapsto> fnode (critic_lr b),
      15 \<mapsto> study_node (study b))"

definition cfg :: val where
  "cfg = VRef 0"

definition init :: "base \<Rightarrow> trial \<Rightarrow> state" where
  "init b t = \<lparr>heap = load b, fresh = 16, calls = [], trial = t\<rparr>"

text \<open>The state \<^verbatim>\<open>tune\<close> starts in, after \<^verbatim>\<open>main\<close> has loaded the configuration.\<close>

definition init_study :: "base \<Rightarrow> (nat \<Rightarrow> (string \<Rightarrow> int) \<times> (string \<Rightarrow> real)) \<Rightarrow> study_state" where
  "init_study b d =
     \<lparr>heap = load b, fresh = 16, calls = [], draws = d,
      study_pruner = \<lparr>mp_n_startup_trials = 0, mp_n_warmup_steps = 0\<rparr>, trials = []\<rparr>"

text \<open>A fresh trial: nothing suggested, nothing reported.\<close>

definition new_trial ::
  "nat \<Rightarrow> (string \<Rightarrow> int) \<Rightarrow> (string \<Rightarrow> real) \<Rightarrow> ((nat \<times> val) list \<Rightarrow> bool) \<Rightarrow> trial" where
  "new_trial k di df p =
     \<lparr>number = k, int_draw = di, float_draw = df, params = [], reported = [], pruner = p\<rparr>"

section \<open>Auxiliary definitions for the statements\<close>

text \<open>
  The bounds Optuna accepts: every interval is ordered, and a logarithmic one starts above
  zero. On any other base configuration a \<^verbatim>\<open>suggest\<close> call raises \<^verbatim>\<open>ValueError\<close>.
\<close>

definition valid_bounds :: "base \<Rightarrow> bool" where
  "valid_bounds b \<longleftrightarrow>
     0 < lo (discount_factor b) \<and> lo (discount_factor b) \<le> hi (discount_factor b) \<and>
     lo (n_steps b) \<le> hi (n_steps b) \<and>
     lo (buffer_size b) \<le> hi (buffer_size b) \<and>
     lo (batch_size b) \<le> hi (batch_size b) \<and>
     0 < lo (tau_target b) \<and> lo (tau_target b) \<le> hi (tau_target b) \<and>
     0 < lo (action_noise b) \<and> lo (action_noise b) \<le> hi (action_noise b) \<and>
     lo (actor_hidden_size b) \<le> hi (actor_hidden_size b) \<and>
     lo (critic_hidden_size b) \<le> hi (critic_hidden_size b) \<and>
     0 < lo (actor_lr b) \<and> lo (actor_lr b) \<le> hi (actor_lr b) \<and>
     0 < lo (critic_lr b) \<and> lo (critic_lr b) \<le> hi (critic_lr b)"

text \<open>The values of \<^verbatim>\<open>n // 2 ** e\<close> and of \<^verbatim>\<open>int(n // 2 ** e)\<close> for integers.\<close>

definition quotient_of :: "int \<Rightarrow> int \<Rightarrow> val" where
  "quotient_of n e =
     (if 0 \<le> e then VInt (n div 2 ^ nat e) else VFloat (of_int (n * 2 ^ nat (- e))))"

definition epochs_of :: "int \<Rightarrow> int \<Rightarrow> int" where
  "epochs_of n e = (if 0 \<le> e then n div 2 ^ nat e else n * 2 ^ nat (- e))"

text \<open>
  A base configuration with the ranges the comments of \<^verbatim>\<open>sample_td3_params\<close> name, and
  a fresh trial whose every draw is fixed.
\<close>

definition example_base :: base where
  "example_base =
     \<lparr>discount_factor = \<lparr>lo = 9 / 10, hi = 9999 / 10000\<rparr>,
      n_steps = \<lparr>lo = 7, hi = 9\<rparr>,
      buffer_size = \<lparr>lo = 100000, hi = 1000000\<rparr>,
      batch_size = \<lparr>lo = 100, hi = 300\<rparr>,
      tau_target = \<lparr>lo = 5 / 1000, hi = 5 / 100\<rparr>,
      action_noise = \<lparr>lo = 1 / 1000, hi = 1 / 10\<rparr>,
      actor_hidden_size = \<lparr>lo = 5, hi = 8\<rparr>,
      critic_hidden_size = \<lparr>lo = 5, hi = 8\<rparr>,
      actor_lr = \<lparr>lo = 1 / 100000, hi = 1\<rparr>,
      critic_lr = \<lparr>lo = 1 / 100000, hi = 1\<rparr>,
      n_timesteps = 1000000,
      max_epoch = 2000,
      study = \<lparr>n_startup_trials = 1, n_warmup_steps = 30, n_trials = 5, n_jobs = 1,
               timeout = 600\<rparr>\<rparr>"

definition example_trial :: trial where
  "example_trial = new_trial 0 (\<lambda>_. 2) (\<lambda>_. 1 / 2) (\<lambda>_. False)"

text \<open>An agent as a training function that succeeds would return it.\<close>

definition example_agent :: agent where
  "example_agent = \<lparr>is_eval = True, mean = VFloat 10, last_mean_reward = VFloat 12\<rparr>"

text \<open>\<^verbatim>\<open>sample_td3_params(trial, cfg)\<close> on the loaded configuration and a fresh trial.\<close>

abbreviation sampled ::
  "base \<Rightarrow> nat \<Rightarrow> (string \<Rightarrow> int) \<Rightarrow> (string \<Rightarrow> real) \<Rightarrow> ((nat \<times> val) list \<Rightarrow> bool) \<Rightarrow>
   (exn + val) \<times> state" where
  "sampled b k di df p \<equiv> sample_td3_params cfg (init b (new_trial k di df p))"

section \<open>Evaluating statements on the loaded configuration\<close>

text \<open>
  The study as \<^verbatim>\<open>tune\<close> hands it to \<^verbatim>\<open>study.optimize\<close>: the loaded configuration,
  the pruner of line 93, no trial yet.
\<close>

definition study_start :: "base \<Rightarrow> (nat \<Rightarrow> (string \<Rightarrow> int) \<times> (string \<Rightarrow> real)) \<Rightarrow> study_state" where
  "study_start b d =
     \<lparr>heap = load b, fresh = 16, calls = [], draws = d,
      study_pruner = \<lparr>mp_n_startup_trials = n_startup_trials (study b),
                      mp_n_warmup_steps = n_warmup_steps (study b) div 3\<rparr>,
      trials = []\<rparr>"

text \<open>
  The scenario of the specification: an objective whose first three trials complete with
  the scores 1.0, 2.5 and 0.3, and whose fourth is interrupted.
\<close>

definition scenario_objective :: "val \<Rightarrow> run_algo \<Rightarrow> (val, state) cmd" where
  "scenario_objective c r = (\<lambda>s.
     if number (trial s) = 0 then (Inr (VFloat 1), s)
     else if number (trial s) = 1 then (Inr (VFloat (5 / 2)), s)
     else if number (trial s) = 2 then (Inr (VFloat (3 / 10)), s)
     else (Inl KeyboardInterrupt, s))"

definition example_draws :: "nat \<Rightarrow> (string \<Rightarrow> int) \<times> (string \<Rightarrow> real)" where
  "example_draws k = (\<lambda>_. 2, \<lambda>_. 1 / 2)"

definition example_run_algo :: run_algo where
  "example_run_algo h c a = Inr example_agent"


lemma bind_apply: "bind m f s = (case m s of (Inl e, s') \<Rightarrow> (Inl e, s') | (Inr x, s') \<Rightarrow> f x s')"
  by (simp add: bind_def)
lemma ret_apply: "ret x s = (Inr x, s)" by (simp add: ret_def)
lemma raise_apply: "raise e s = (Inl e, s)" by (simp add: raise_def)
lemmas getattr_apply = fun_cong [OF getattr_def [unfolded atomize_eq]]
lemmas setattr_apply = fun_cong [OF setattr_def [unfolded atomize_eq]]
lemmas copy_apply = fun_cong [OF copy_def [unfolded atomize_eq]]
lemmas suggest_int_apply = fun_cong [OF suggest_int_def [unfolded atomize_eq]]
lemmas suggest_float_log_apply = fun_cong [OF suggest_float_log_def [unfolded atomize_eq]]

lemma load_at:
  "load b 0 = Some root_node"
  "load b (Suc 0) = Some (algorithm_node b)"
  "load b 2 = Some (fnode (discount_factor b))"
  "load b 3 = Some (inode (n_steps b))"
  "load b 4 = Some (inode (buffer_size b))"
  "load b 5 = Some (inode (batch_size b))"
  "load b 6 = Some (fnode (tau_target b))"
  "load b 7 = Some (fnode (action_noise b))"
  "load b 8 = Some architecture_node"
  "load b 9 = Some (inode (actor_hidden_size b))"
  "load b 10 = Some (inode (critic_hidden_size b))"
  "load b 11 = Some actor_optimizer_node"
  "load b 12 = Some (fnode (actor_lr b))"
  "load b 13 = Some critic_optimizer_node"
  "load b 14 = Some (fnode (critic_lr b))"
  "load b 15 = Some (study_node (study b))"
  by (simp_all add: load_def)

lemma map_of_update: "map_of (AList.update k v al) k' = (if k' = k then Some v else map_of al k')"
  by (simp add: update_conv')

lemma node_at:
  "map_of root_node ''algorithm'' = Some (VRef (Suc 0))"
  "map_of root_node ''actor_optimizer'' = Some (VRef 11)"
  "map_of root_node ''critic_optimizer'' = Some (VRef 13)"
  "map_of root_node ''study'' = Some (VRef 15)"
  "map_of (algorithm_node b) ''discount_factor'' = Some (VRef 2)"
  "map_of (algorithm_node b) ''n_steps'' = Some (VRef 3)"
  "map_of (algorithm_node b) ''buffer_size'' = Some (VRef 4)"
  "map_of (algorithm_node b) ''batch_size'' = Some (VRef 5)"
  "map_of (algorithm_node b) ''tau_target'' = Some (VRef 6)"
  "map_of (algorithm_node b) ''action_noise'' = Some (VRef 7)"
  "map_of (algorithm_node b) ''architecture'' = Some (VRef 8)"
  "map_of (algorithm_node b) ''n_timesteps'' = Some (VInt (n_timesteps b))"
  "map_of (algorithm_node b) ''max_epoch'' = Some (VInt (max_epoch b))"
  "map_of (algorithm_node b) ''max_epochs'' = None"
  "map_of architecture_node ''actor_hidden_size'' = Some (VRef 9)"
  "map_of architecture_node ''critic_hidden_size'' = Some (VRef 10)"
  "map_of actor_optimizer_node ''lr'' = Some (VRef 12)"
  "map_of critic_optimizer_node ''lr'' = Some (VRef 14)"
  "map_of (fnode fb) ''min'' = Some (VFloat (lo fb))"
  "map_of (fnode fb) ''max'' = Some (VFloat (hi fb))"
  "map_of (inode ib) ''min'' = Some (VInt (lo ib))"
  "map_of (inode ib) ''max'' = Some (VInt (hi ib))"
  "map_of (study_node c) ''n_startup_trials'' = Some (VInt (n_startup_trials c))"
  "map_of (study_node c) ''n_warmup_steps'' = Some (VInt (n_warmup_steps c))"
  "map_of (study_node c) ''n_trials'' = Some (VInt (int (n_trials c)))"
  "map_of (study_node c) ''n_jobs'' = Some (VInt (n_jobs c))"
  "map_of (study_node c) ''timeout'' = Some (VInt (timeout c))"
  by (simp_all add: root_node_def algorithm_node_def architecture_node_def
      actor_optimizer_node_def critic_optimizer_node_def fnode_def inode_def study_node_def)

lemma floordiv_pow2: "floordiv (VInt n) (pow2_int e) s = (Inr (quotient_of n e), s)"
  by (simp add: floordiv_def pow2_int_def quotient_of_def ret_def raise_def)

lemma floor_int_times: "\<lfloor>real_of_int n * 2 ^ k\<rfloor> = n * 2 ^ k"
proof -
  have "real_of_int n * 2 ^ k = real_of_int (n * 2 ^ k)" by simp
  then show ?thesis by (simp only: floor_of_int)
qed

lemma ceiling_int_times: "\<lceil>real_of_int n * 2 ^ k\<rceil> = n * 2 ^ k"
proof -
  have "real_of_int n * 2 ^ k = real_of_int (n * 2 ^ k)" by simp
  then show ?thesis by (simp only: ceiling_of_int)
qed

lemma to_int_quotient: "to_int (quotient_of n e) s = (Inr (VInt (epochs_of n e)), s)"
  by (simp add: to_int_def quotient_of_def epochs_of_def ret_def floor_int_times ceiling_int_times)

lemmas ev_sample = bind_apply ret_apply raise_apply copy_apply
    suggest_float_at_def suggest_int_at_def suggest_int_apply suggest_float_log_apply getattr_apply
    setattr_apply assign_def pow2_def Let_def load_at node_at map_of_update floordiv_pow2 to_int_quotient

lemmas ev = cfg_def init_def new_trial_def ev_sample

lemma int_in_range_bounds:
  assumes "l \<le> h"
  shows "l \<le> int_in_range l h d" and "int_in_range l h d \<le> h"
proof -
  have pos: "0 < h - l + 1" using assms by simp
  have a: "0 \<le> d mod (h - l + 1)" using pos by (rule pos_mod_sign)
  have c: "d mod (h - l + 1) < h - l + 1" using pos by (rule pos_mod_bound)
  show "l \<le> int_in_range l h d" unfolding int_in_range_def using a by linarith
  show "int_in_range l h d \<le> h" unfolding int_in_range_def using c by linarith
qed

lemma num_pow2_int: "num (pow2_int e) = Some (power_int 2 e)"
  by (simp add: pow2_int_def power_int_def power_one_over inverse_eq_divide)

lemma pow2_between:
  assumes "l \<le> e" "e \<le> h"
  shows "power_int 2 l \<le> (power_int 2 e :: real)" and "power_int 2 e \<le> (power_int 2 h :: real)"
  using assms by (simp_all add: power_int_increasing)

lemma div_bounds:
  fixes n P :: int
  assumes "0 < P"
  shows "n div P * P \<le> n" and "n < (n div P + 1) * P"
proof -
  have a: "0 \<le> n mod P" using assms by (rule pos_mod_sign)
  have c: "n mod P < P" using assms by (rule pos_mod_bound)
  have e: "n div P * P = n - n mod P" by (simp add: minus_mod_eq_div_mult)
  show "n div P * P \<le> n" unfolding e using a by linarith
  have "(n div P + 1) * P = n - n mod P + P" by (simp add: distrib_right e)
  then show "n < (n div P + 1) * P" using c by linarith
qed

lemma epochs_of_bounds:
  "of_int (epochs_of n e) * power_int 2 e \<le> (of_int n :: real)"
  "(of_int n :: real) < (of_int (epochs_of n e) + 1) * power_int 2 e"
proof -
  have p: "(0::int) < 2 ^ nat e" by simp
  have h: "(2::real) ^ j * (1 / 2) ^ j = 1" for j
    by (simp add: power_mult_distrib [symmetric])
  show "of_int (epochs_of n e) * power_int 2 e \<le> (of_int n :: real)"
  proof (cases "0 \<le> e")
    case True
    have "real_of_int (n div 2 ^ nat e * 2 ^ nat e) \<le> real_of_int n"
      using div_bounds(1) [OF p, of n] by (simp only: of_int_le_iff)
    then show ?thesis using True by (simp add: epochs_of_def power_int_def)
  next
    case False
    then show ?thesis by (simp add: epochs_of_def power_int_def mult.assoc h)
  qed
  show "(of_int n :: real) < (of_int (epochs_of n e) + 1) * power_int 2 e"
  proof (cases "0 \<le> e")
    case True
    have "real_of_int n < real_of_int ((n div 2 ^ nat e + 1) * 2 ^ nat e)"
      using div_bounds(2) [OF p, of n] by (simp only: of_int_less_iff)
    then show ?thesis using True by (simp add: epochs_of_def power_int_def)
  next
    case False
    then show ?thesis by (simp add: epochs_of_def power_int_def distrib_right mult.assoc h)
  qed
qed

lemma sample_result:
  assumes "valid_bounds b"
  shows "sample_td3_params cfg (init b (new_trial k di df p)) =
    (Inr (VRef 16),
     \<lparr>heap =
        (load b)
        (16 \<mapsto> root_node,
           8 \<mapsto>
           AList.update ''critic_hidden_size''
            (VList
              [pow2_int
                (int_in_range (lo (critic_hidden_size b))
                  (hi (critic_hidden_size b)) (di ''critic_hidden_size'')),
               pow2_int
                (int_in_range (lo (critic_hidden_size b))
                  (hi (critic_hidden_size b)) (di ''critic_hidden_size''))])
            (AList.update ''actor_hidden_size''
              (VList
                [pow2_int
                  (int_in_range (lo (actor_hidden_size b))
                    (hi (actor_hidden_size b)) (di ''actor_hidden_size'')),
                 pow2_int
                  (int_in_range (lo (actor_hidden_size b))
                    (hi (actor_hidden_size b)) (di ''actor_hidden_size''))])
              architecture_node),
           11 \<mapsto>
           AList.update ''lr''
            (VFloat
              (float_in_range (lo (actor_lr b)) (hi (actor_lr b))
                (df ''actor_lr'')))
            actor_optimizer_node,
           13 \<mapsto>
           AList.update ''lr''
            (VFloat
              (float_in_range (lo (critic_lr b)) (hi (critic_lr b))
                (df ''critic_lr'')))
            critic_optimizer_node,
           Suc 0 \<mapsto>
           AList.update ''max_epochs''
            (VInt
              (epochs_of (n_timesteps b)
                (int_in_range (lo (n_steps b)) (hi (n_steps b))
                  (di ''n_steps''))))
            (AList.update ''n_steps''
              (pow2_int
                (int_in_range (lo (n_steps b)) (hi (n_steps b))
                  (di ''n_steps'')))
              (AList.update ''action_noise''
                (VFloat
                  (float_in_range (lo (action_noise b))
                    (hi (action_noise b)) (df ''action_std'')))
                (AList.update ''tau_target''
                  (VFloat
                    (float_in_range (lo (tau_target b)) (hi (tau_target b))
                      (df ''tau_target'')))
                  (AList.update ''batch_size''
                    (VInt
                      (int_in_range (lo (batch_size b)) (hi (batch_size b))
                        (di ''batch_size'')))
                    (AList.update ''buffer_size''
                      (VInt
                        (int_in_range (lo (buffer_size b))
                          (hi (buffer_size b)) (di ''buffer_size'')))
                      (AList.update ''discount_factor''
                        (VFloat
                          (float_in_range (lo (discount_factor b))
                            (hi (discount_factor b))
                            (df ''discount_factor'')))
                        (algorithm_node b)))))))),
        fresh = 17, calls = [],
        trial =
          \<lparr>number = k, int_draw = di, float_draw = df,
             params =
               [(''discount_factor'',
                 VFloat
                  (float_in_range (lo (discount_factor b))
                    (hi (discount_factor b)) (df ''discount_factor''))),
                (''n_steps'',
                 VInt
                  (int_in_range (lo (n_steps b)) (hi (n_steps b))
                    (di ''n_steps''))),
                (''buffer_size'',
                 VInt
                  (int_in_range (lo (buffer_size b)) (hi (buffer_size b))
                    (di ''buffer_size''))),
                (''batch_size'',
                 VInt
                  (int_in_range (lo (batch_size b)) (hi (batch_size b))
                    (di ''batch_size''))),
                (''tau_target'',
                 VFloat
                  (float_in_range (lo (tau_target b)) (hi (tau_target b))
                    (df ''tau_target''))),
                (''action_std'',
                 VFloat
                  (float_in_range (lo (action_noise b))
                    (hi (action_noise b)) (df ''action_std''))),
                (''actor_hidden_size'',
                 VInt
                  (int_in_range (lo (actor_hidden_size b))
                    (hi (actor_hidden_size b)) (di ''actor_hidden_size''))),
                (''critic_hidden_size'',
                 VInt
                  (int_in_range (lo (critic_hidden_size b))
                    (hi (critic_hidden_size b))
                    (di ''critic_hidden_size''))),
                (''actor_lr'',
                 VFloat
                  (float_in_range (lo (actor_lr b)) (hi (actor_lr b))
                    (df ''actor_lr''))),
                (''critic_lr'',
                 VFloat
                  (float_in_range (lo (critic_lr b)) (hi (critic_lr b))
                    (df ''critic_lr'')))],
             reported = [], pruner = p\<rparr>\<rparr>)"
  using assms by (simp add: ev valid_bounds_def sample_td3_params_def)

lemma sample_returns_valid:
  "fst (sample_td3_params cfg (init b (new_trial k di df p))) = Inr c \<longrightarrow> valid_bounds b"
  by (simp add: ev valid_bounds_def sample_td3_params_def)

lemma valid_bounds_example: "valid_bounds example_base"
  by (simp add: valid_bounds_def example_base_def)

lemma sampled_example: "fst (sample_td3_params cfg (init example_base example_trial)) = Inr (VRef 16)"
  unfolding example_trial_def by (simp add: sample_result [OF valid_bounds_example])

lemmas try_except_apply = fun_cong [OF try_except_def [unfolded atomize_eq]]
lemmas call_training_apply = fun_cong [OF call_training_def [unfolded atomize_eq]]
lemmas report_apply = fun_cong [OF report_def [unfolded atomize_eq]]
lemmas should_prune_apply = fun_cong [OF should_prune_def [unfolded atomize_eq]]

lemmas ev_objective = try_except_apply call_training_apply report_apply should_prune_apply
    agent_attr_def py_range_def epoch_body_def

lemma objective_result:
  fixes b k di df p run_algo
  assumes v: "valid_bounds b"
  defines "s1 \<equiv> snd (sampled b k di df p)"
  defines "H \<equiv> (heap s1)(Suc 0 \<mapsto> AList.update ''max_epoch'' (VInt 1) (the (heap s1 (Suc 0))))"
  shows "objective cfg run_algo (init b (new_trial k di df p)) =
     (case run_algo H (VRef 16) None of
        Inl e \<Rightarrow> if e = AssertionError then Inr VNaN else Inl e
      | Inr a \<Rightarrow> Inl AttributeError,
      s1\<lparr>heap := H, calls := [(H, VRef 16, None)]\<rparr>)"
proof (cases "run_algo H (VRef 16) None")
  case (Inl e)
  then show ?thesis
    unfolding H_def s1_def sample_result [OF v]
    by (simp add: objective_def sample_result [OF v] ev_sample ev_objective)
next
  case (Inr a)
  then show ?thesis
    unfolding H_def s1_def sample_result [OF v]
    by (simp add: objective_def sample_result [OF v] ev_sample ev_objective)
qed

lemma sampled_calls: "calls (snd (sampled b k di df p)) = []"
  by (simp add: ev sample_td3_params_def)

lemma objective_no_call:
  assumes "\<not> valid_bounds b"
  shows "calls (snd (objective cfg run_algo (init b (new_trial k di df p)))) = []"
proof -
  obtain r s where rs: "sampled b k di df p = (r, s)" by (cases "sampled b k di df p")
  from assms sample_returns_valid [of b k di df p] rs obtain e where e: "r = Inl e"
    by (cases r) auto
  have "objective cfg run_algo (init b (new_trial k di df p)) = (Inl e, s)"
    by (simp add: objective_def bind_apply rs e)
  moreover have "calls s = []" using sampled_calls [of b k di df p] rs by simp
  ultimately show ?thesis by simp
qed

lemma objective_call:
  assumes "(h, c, a) \<in> set (calls (snd (objective cfg run_algo (init b (new_trial k di df p)))))"
  shows "valid_bounds b" and "c = VRef 16" and "a = None"
    and "calls (snd (objective cfg run_algo (init b (new_trial k di df p)))) = [(h, c, a)]"
    and "fst (objective cfg run_algo (init b (new_trial k di df p))) =
      (case run_algo h c a of
         Inl e \<Rightarrow> if e = AssertionError then Inr VNaN else Inl e
       | Inr t \<Rightarrow> Inl AttributeError)"
    and "getpath c [''algorithm'', ''max_epoch'']
           (snd (objective cfg run_algo (init b (new_trial k di df p)))) =
         (Inr (VInt 1), snd (objective cfg run_algo (init b (new_trial k di df p))))"
    and "fst (getpath c [''algorithm'', ''max_epoch''] \<lparr>heap = h, fresh = 0, calls = []\<rparr>) =
         Inr (VInt 1)"
proof -
  show v: "valid_bounds b"
  proof (rule ccontr)
    assume "\<not> valid_bounds b"
    then have "calls (snd (objective cfg run_algo (init b (new_trial k di df p)))) = []"
      by (rule objective_no_call)
    with assms show False by simp
  qed
  note r = objective_result [OF v, of run_algo k di df p]
  from assms show c: "c = VRef 16" and a: "a = None" unfolding r by simp_all
  from assms show "calls (snd (objective cfg run_algo (init b (new_trial k di df p)))) = [(h, c, a)]"
    unfolding r by simp
  from assms have h: "h = (heap (snd (sampled b k di df p)))
      (Suc 0 \<mapsto> AList.update ''max_epoch'' (VInt 1) (the (heap (snd (sampled b k di df p)) (Suc 0))))"
    unfolding r by simp
  show "fst (objective cfg run_algo (init b (new_trial k di df p))) =
      (case run_algo h c a of
         Inl e \<Rightarrow> if e = AssertionError then Inr VNaN else Inl e
       | Inr t \<Rightarrow> Inl AttributeError)"
    unfolding r h c a by simp
  show "getpath c [''algorithm'', ''max_epoch'']
           (snd (objective cfg run_algo (init b (new_trial k di df p)))) =
         (Inr (VInt 1), snd (objective cfg run_algo (init b (new_trial k di df p))))"
    unfolding r c sample_result [OF v] by (simp add: ev_sample)
  show "fst (getpath c [''algorithm'', ''max_epoch''] \<lparr>heap = h, fresh = 0, calls = []\<rparr>) =
         Inr (VInt 1)"
    unfolding h c sample_result [OF v] by (simp add: ev_sample)
qed

lemma example_call:
  "\<exists>h. calls (snd (objective cfg run_algo (init example_base example_trial))) =
     [(h, VRef 16, None)]"
  unfolding example_trial_def objective_result [OF valid_bounds_example] by simp

lemma example_epochs:
  "fst (getpath (VRef 16) [''algorithm'', ''max_epochs'']
     (snd (objective cfg run_algo (init example_base example_trial)))) = Inr (VInt 1953)"
  unfolding example_trial_def objective_result [OF valid_bounds_example]
    sample_result [OF valid_bounds_example]
  by (simp add: ev_sample example_base_def epochs_of_def int_in_range_def)

lemma floordiv_int: "b \<noteq> 0 \<Longrightarrow> floordiv (VInt a) (VInt b) s = (Inr (VInt (a div b)), s)"
  by (simp add: floordiv_def ret_def)

lemma make_pruner_result:
  "make_pruner cfg (init b t) =
     (Inr \<lparr>mp_n_startup_trials = n_startup_trials (study b),
           mp_n_warmup_steps = n_warmup_steps (study b) div 3\<rparr>, init b t)"
  by (simp add: make_pruner_def MedianPruner_def cfg_def init_def ev_sample floordiv_int)

lemma prune_gate:
  assumes "prune P others reports"
  shows "reports \<noteq> []"
    and "mp_n_warmup_steps P \<le> int (fst (last reports))"
    and "mp_n_startup_trials P \<le> int (length others)"
proof -
  show ne: "reports \<noteq> []" using assms by (auto simp: prune_def)
  then obtain r rs where rr: "reports = r # rs" by (cases reports) auto
  show "mp_n_warmup_steps P \<le> int (fst (last reports))"
    using assms unfolding prune_def rr by (simp add: Let_def split: if_splits)
  show "mp_n_startup_trials P \<le> int (length others)"
    using assms unfolding prune_def rr by (simp add: Let_def split: if_splits)
qed

lemma example_pruner:
  "fst (make_pruner cfg (init example_base example_trial)) =
     Inr \<lparr>mp_n_startup_trials = 1, mp_n_warmup_steps = 10\<rparr>"
  unfolding make_pruner_result by (simp add: example_base_def)

lemma example_prune:
  "prune \<lparr>mp_n_startup_trials = 1, mp_n_warmup_steps = 10\<rparr> [[(10, VFloat 5)]] [(10, VFloat 1)]"
  by (simp add: prune_def scores_at_def median_def)

lemma bind_assoc: "bind (bind m f) g = bind m (\<lambda>x. bind (f x) g)"
  by (rule ext) (simp add: bind_def split: prod.splits sum.splits)

lemma bind_ret: "bind (ret x) f = f x"
  by (rule ext) (simp add: bind_def ret_def)

lemma optimize_add: "optimize (j + m) f = bind (optimize j f) (\<lambda>_. optimize m f)"
proof (induction j)
  case 0
  show ?case by (simp add: bind_ret)
next
  case (Suc j)
  show ?case by (simp add: Suc bind_assoc)
qed

lemma run_trial_raises:
  assumes "fst (run_trial f S) = Inl e"
  shows "\<exists>t. trials (snd (run_trial f S)) = trials S @ [t] \<and> ft_state t = FAIL"
  using assms
  by (auto simp: run_trial_def Let_def split: prod.splits sum.splits option.splits if_splits)

lemma best_of_mem: "best_of t ts \<in> set (t # ts)"
  by (induction ts arbitrary: t) auto

lemma best_of_lower: "value_of t \<le> value_of (best_of t ts)"
proof (induction ts arbitrary: t)
  case Nil
  show ?case by simp
next
  case (Cons a ts)
  show ?case
  proof (cases "value_of t < value_of a")
    case True
    then have "value_of t \<le> value_of a" by simp
    also have "\<dots> \<le> value_of (best_of a ts)" by (rule Cons.IH)
    finally show ?thesis using True by simp
  next
    case False
    then show ?thesis using Cons.IH [of t] by simp
  qed
qed

lemma best_of_max: "u \<in> set (t # ts) \<Longrightarrow> value_of u \<le> value_of (best_of t ts)"
proof (induction ts arbitrary: t)
  case Nil
  then show ?case by simp
next
  case (Cons a ts)
  show ?case
  proof (cases "value_of t < value_of a")
    case True
    from Cons.prems consider "u = t" | "u \<in> set (a # ts)" by auto
    then show ?thesis
    proof cases
      case 1
      have "value_of t \<le> value_of a" using True by simp
      also have "\<dots> \<le> value_of (best_of a ts)" by (rule best_of_lower)
      finally show ?thesis using True 1 by simp
    next
      case 2
      then show ?thesis using True Cons.IH [of a] by simp
    qed
  next
    case False
    from Cons.prems consider "u = a" | "u \<in> set (t # ts)" by auto
    then show ?thesis
    proof cases
      case 1
      have "value_of a \<le> value_of t" using False by simp
      also have "\<dots> \<le> value_of (best_of t ts)" by (rule best_of_lower)
      finally show ?thesis using False 1 by simp
    next
      case 2
      then show ?thesis using False Cons.IH [of t] by simp
    qed
  qed
qed

lemmas best_trial_apply = fun_cong [OF best_trial_def [unfolded atomize_eq]]

lemma tune_after_optimize:
  assumes "optimize (n_trials (study b)) (f cfg run_algo) (study_start b d) = (r, S1)"
  shows "tune f cfg run_algo (init_study b d) =
     (case r of
        Inl e \<Rightarrow>
          if e = KeyboardInterrupt then
            (case completed (trials S1) of
               [] \<Rightarrow> (Inl ValueError, S1)
             | t # ts \<Rightarrow>
                 (Inr \<lparr>n_finished = length (trials S1), best = best_of t ts,
                        table = trials S1\<rparr>, S1))
          else (Inl e, S1)
      | Inr u \<Rightarrow>
          (case completed (trials S1) of
             [] \<Rightarrow> (Inl ValueError, S1)
           | t # ts \<Rightarrow>
               (Inr \<lparr>n_finished = length (trials S1), best = best_of t ts,
                      table = trials S1\<rparr>, S1)))"
proof -
  have s: "(init_study b d)\<lparr>study_pruner := \<lparr>mp_n_startup_trials = n_startup_trials (study b),
      mp_n_warmup_steps = n_warmup_steps (study b) div 3\<rparr>, trials := []\<rparr> = study_start b d"
    by (simp add: init_study_def study_start_def)
  have pre: "tune f cfg run_algo (init_study b d) =
     bind (try_except (optimize (n_trials (study b)) (f cfg run_algo)) KeyboardInterrupt (ret ()))
       (\<lambda>_. bind (\<lambda>S. (Inr (length (trials S)), S)) (\<lambda>finished.
             bind best_trial (\<lambda>best_t.
             bind (\<lambda>S. (Inr (trials S), S)) (\<lambda>rows.
             ret \<lparr>n_finished = finished, best = best_t, table = rows\<rparr>))))
       (study_start b d)"
    unfolding s [symmetric]
    by (simp add: tune_def make_pruner_def MedianPruner_def budget_def init_study_def
        try_except_apply bind_apply ret_apply raise_apply getattr_apply load_at node_at floordiv_int
        cfg_def)
  show ?thesis
  proof (cases r)
    case (Inl e)
    then show ?thesis unfolding pre using assms
      by (simp add: bind_apply try_except_apply ret_apply best_trial_apply split: list.splits)
  next
    case (Inr u)
    then show ?thesis unfolding pre using assms
      by (simp add: bind_apply try_except_apply ret_apply best_trial_apply split: list.splits)
  qed
qed

lemma optimize_interrupted:
  assumes "optimize j f S0 = (Inr (), Sj)" and "run_trial f Sj = (Inl e, S1)" and "j < n"
  shows "optimize n f S0 = (Inl e, S1)"
proof -
  from less_imp_Suc_add [OF assms(3)] obtain m where "n = Suc (j + m)" ..
  then have n: "n = j + Suc m" by simp
  have "optimize (j + Suc m) f S0 = bind (optimize j f) (\<lambda>_. optimize (Suc m) f) S0"
    by (simp only: optimize_add [of j "Suc m" f])
  also have "\<dots> = optimize (Suc m) f Sj"
    by (simp only: bind_apply assms(1) prod.case sum.case)
  also have "\<dots> = bind (run_trial f) (\<lambda>_. optimize m f) Sj"
    by (simp only: optimize.simps)
  also have "\<dots> = (Inl e, S1)"
    by (simp only: bind_apply assms(2) prod.case sum.case)
  finally show ?thesis unfolding n .
qed

lemmas run_trial_apply = fun_cong [OF run_trial_def [unfolded atomize_eq]]
lemmas scenario_objective_apply = fun_cong [OF scenario_objective_def [unfolded atomize_eq]]

lemma scenario_three:
  "optimize 3 (scenario_objective cfg example_run_algo) (study_start example_base example_draws) =
     (Inr (),
      \<lparr>heap = load example_base, fresh = 16, calls = [], draws = example_draws,
       study_pruner =
         \<lparr>mp_n_startup_trials = n_startup_trials (study example_base),
          mp_n_warmup_steps = n_warmup_steps (study example_base) div 3\<rparr>,
       trials =
         [\<lparr>ft_number = 0, ft_state = COMPLETE, ft_value = Some (VFloat 1),
           ft_params = [], ft_reported = []\<rparr>,
          \<lparr>ft_number = Suc 0, ft_state = COMPLETE, ft_value = Some (VFloat (5 / 2)),
           ft_params = [], ft_reported = []\<rparr>,
          \<lparr>ft_number = Suc (Suc 0), ft_state = COMPLETE, ft_value = Some (VFloat (3 / 10)),
           ft_params = [], ft_reported = []\<rparr>]\<rparr>)"
  by (simp add: numeral_3_eq_3 bind_apply ret_apply run_trial_apply scenario_objective_apply
      study_start_def completed_def Let_def)

lemma scenario_fourth:
  "fst (run_trial (scenario_objective cfg example_run_algo)
         (snd (optimize 3 (scenario_objective cfg example_run_algo)
                (study_start example_base example_draws)))) = Inl KeyboardInterrupt"
  unfolding scenario_three
  by (simp add: run_trial_apply scenario_objective_apply completed_def Let_def)


section \<open>The claims\<close>

text \<open>
  Claim C10. Whatever the base configuration and the draws, when \<^verbatim>\<open>sample_td3_params\<close>
  returns, the action-noise hyperparameter is recorded in \<^verbatim>\<open>trial.params\<close> under the
  name \<^verbatim>\<open>action_std\<close>, the same value is the configuration field
  \<^verbatim>\<open>algorithm.action_noise\<close>, and \<^verbatim>\<open>trial.params\<close> has no key \<^verbatim>\<open>action_noise\<close>.
\<close>
theorem action_noise_recorded_as_action_std:
  assumes "fst (sampled b k di df p) = Inr config"
  shows "\<exists>v. map_of (params (trial (snd (sampled b k di df p)))) ''action_std'' = Some v \<and>
             getpath config [''algorithm'', ''action_noise''] (snd (sampled b k di df p)) =
               (Inr v, snd (sampled b k di df p)) \<and>
             ''action_noise'' \<notin> fst ` set (params (trial (snd (sampled b k di df p))))"
proof -
  from assms have w: "valid_bounds b" using sample_returns_valid by blast
  note r = sample_result [OF w, of k di df p]
  from assms have c: "config = VRef 16" unfolding r by simp
  show ?thesis unfolding r c by (simp add: ev)
qed

theorem action_noise_recorded_as_action_std_witness:
  "fst (sample_td3_params cfg (init example_base example_trial)) = Inr (VRef 16) \<and>
   (\<exists>v. map_of (params (trial (snd (sample_td3_params cfg (init example_base example_trial)))))
           ''action_std'' = Some v \<and>
        getpath (VRef 16) [''algorithm'', ''action_noise'']
          (snd (sample_td3_params cfg (init example_base example_trial))) =
          (Inr v, snd (sample_td3_params cfg (init example_base example_trial))) \<and>
        ''action_noise'' \<notin>
          fst ` set (params (trial (snd (sample_td3_params cfg (init example_base example_trial))))))"
  using sampled_example
    action_noise_recorded_as_action_std [of example_base 0 "\<lambda>_. 2" "\<lambda>_. 1 / 2" "\<lambda>_. False" "VRef 16"]
  unfolding example_trial_def by blast

text \<open>
  Claim C4. When \<^verbatim>\<open>sample_td3_params\<close> returns, each power-of-two parameter holds
  \<^verbatim>\<open>2 ** e\<close> for an integer \<open>e\<close> within its exponent bounds, a power of two between
  the powers of the bounds; each hidden-size field is the list of that one width, twice.
\<close>
theorem power_of_two_parameters:
  assumes "fst (sampled b k di df p) = Inr config"
  shows
    "(\<exists>e. lo (n_steps b) \<le> e \<and> e \<le> hi (n_steps b) \<and>
          getpath config [''algorithm'', ''n_steps''] (snd (sampled b k di df p)) =
            (Inr (pow2_int e), snd (sampled b k di df p)) \<and>
          num (pow2_int e) = Some (power_int 2 e) \<and>
          power_int 2 (lo (n_steps b)) \<le> (power_int 2 e :: real) \<and>
          (power_int 2 e :: real) \<le> power_int 2 (hi (n_steps b))) \<and>
     (\<exists>e. lo (actor_hidden_size b) \<le> e \<and> e \<le> hi (actor_hidden_size b) \<and>
          getpath config [''algorithm'', ''architecture'', ''actor_hidden_size'']
            (snd (sampled b k di df p)) =
            (Inr (VList [pow2_int e, pow2_int e]), snd (sampled b k di df p)) \<and>
          num (pow2_int e) = Some (power_int 2 e) \<and>
          power_int 2 (lo (actor_hidden_size b)) \<le> (power_int 2 e :: real) \<and>
          (power_int 2 e :: real) \<le> power_int 2 (hi (actor_hidden_size b))) \<and>
     (\<exists>e. lo (critic_hidden_size b) \<le> e \<and> e \<le> hi (critic_hidden_size b) \<and>
          getpath config [''algorithm'', ''architecture'', ''critic_hidden_size'']
            (snd (sampled b k di df p)) =
            (Inr (VList [pow2_int e, pow2_int e]), snd (sampled b k di df p)) \<and>
          num (pow2_int e) = Some (power_int 2 e) \<and>
          power_int 2 (lo (critic_hidden_size b)) \<le> (power_int 2 e :: real) \<and>
          (power_int 2 e :: real) \<le> power_int 2 (hi (critic_hidden_size b)))"
proof -
  from assms have w: "valid_bounds b" using sample_returns_valid by blast
  note r = sample_result [OF w, of k di df p]
  from assms have c: "config = VRef 16" unfolding r by simp
  have bn: "lo (n_steps b) \<le> hi (n_steps b)"
    and ba: "lo (actor_hidden_size b) \<le> hi (actor_hidden_size b)"
    and bc: "lo (critic_hidden_size b) \<le> hi (critic_hidden_size b)"
    using w by (simp_all add: valid_bounds_def)
  define en where "en = int_in_range (lo (n_steps b)) (hi (n_steps b)) (di ''n_steps'')"
  define ea where "ea = int_in_range (lo (actor_hidden_size b)) (hi (actor_hidden_size b))
    (di ''actor_hidden_size'')"
  define ec where "ec = int_in_range (lo (critic_hidden_size b)) (hi (critic_hidden_size b))
    (di ''critic_hidden_size'')"
  have rn: "lo (n_steps b) \<le> en" "en \<le> hi (n_steps b)"
    unfolding en_def using int_in_range_bounds [OF bn] by simp_all
  have ra: "lo (actor_hidden_size b) \<le> ea" "ea \<le> hi (actor_hidden_size b)"
    unfolding ea_def using int_in_range_bounds [OF ba] by simp_all
  have rc: "lo (critic_hidden_size b) \<le> ec" "ec \<le> hi (critic_hidden_size b)"
    unfolding ec_def using int_in_range_bounds [OF bc] by simp_all
  have gn: "getpath config [''algorithm'', ''n_steps''] (snd (sampled b k di df p)) =
      (Inr (pow2_int en), snd (sampled b k di df p))"
    unfolding r c en_def by (simp add: ev)
  have ga: "getpath config [''algorithm'', ''architecture'', ''actor_hidden_size'']
      (snd (sampled b k di df p)) =
      (Inr (VList [pow2_int ea, pow2_int ea]), snd (sampled b k di df p))"
    unfolding r c ea_def by (simp add: ev)
  have gc: "getpath config [''algorithm'', ''architecture'', ''critic_hidden_size'']
      (snd (sampled b k di df p)) =
      (Inr (VList [pow2_int ec, pow2_int ec]), snd (sampled b k di df p))"
    unfolding r c ec_def by (simp add: ev)
  have "\<exists>e. lo (n_steps b) \<le> e \<and> e \<le> hi (n_steps b) \<and>
          getpath config [''algorithm'', ''n_steps''] (snd (sampled b k di df p)) =
            (Inr (pow2_int e), snd (sampled b k di df p)) \<and>
          num (pow2_int e) = Some (power_int 2 e) \<and>
          power_int 2 (lo (n_steps b)) \<le> (power_int 2 e :: real) \<and>
          (power_int 2 e :: real) \<le> power_int 2 (hi (n_steps b))"
    using rn gn num_pow2_int [of en] pow2_between [OF rn] by blast
  moreover have "\<exists>e. lo (actor_hidden_size b) \<le> e \<and> e \<le> hi (actor_hidden_size b) \<and>
          getpath config [''algorithm'', ''architecture'', ''actor_hidden_size'']
            (snd (sampled b k di df p)) =
            (Inr (VList [pow2_int e, pow2_int e]), snd (sampled b k di df p)) \<and>
          num (pow2_int e) = Some (power_int 2 e) \<and>
          power_int 2 (lo (actor_hidden_size b)) \<le> (power_int 2 e :: real) \<and>
          (power_int 2 e :: real) \<le> power_int 2 (hi (actor_hidden_size b))"
    using ra ga num_pow2_int [of ea] pow2_between [OF ra] by blast
  moreover have "\<exists>e. lo (critic_hidden_size b) \<le> e \<and> e \<le> hi (critic_hidden_size b) \<and>
          getpath config [''algorithm'', ''architecture'', ''critic_hidden_size'']
            (snd (sampled b k di df p)) =
            (Inr (VList [pow2_int e, pow2_int e]), snd (sampled b k di df p)) \<and>
          num (pow2_int e) = Some (power_int 2 e) \<and>
          power_int 2 (lo (critic_hidden_size b)) \<le> (power_int 2 e :: real) \<and>
          (power_int 2 e :: real) \<le> power_int 2 (hi (critic_hidden_size b))"
    using rc gc num_pow2_int [of ec] pow2_between [OF rc] by blast
  ultimately show ?thesis by blast
qed

theorem power_of_two_parameters_witness:
  "fst (sampled example_base 0 (\<lambda>_. 2) (\<lambda>_. 1 / 2) (\<lambda>_. False)) = Inr (VRef 16) \<and>
   ((\<exists>e. lo (n_steps example_base) \<le> e \<and> e \<le> hi (n_steps example_base) \<and>
          getpath (VRef 16) [''algorithm'', ''n_steps''] (snd (sampled example_base 0 (\<lambda>_. 2) (\<lambda>_. 1 / 2) (\<lambda>_. False))) =
            (Inr (pow2_int e), snd (sampled example_base 0 (\<lambda>_. 2) (\<lambda>_. 1 / 2) (\<lambda>_. False))) \<and>
          num (pow2_int e) = Some (power_int 2 e) \<and>
          power_int 2 (lo (n_steps example_base)) \<le> (power_int 2 e :: real) \<and>
          (power_int 2 e :: real) \<le> power_int 2 (hi (n_steps example_base))) \<and>
     (\<exists>e. lo (actor_hidden_size example_base) \<le> e \<and> e \<le> hi (actor_hidden_size example_base) \<and>
          getpath (VRef 16) [''algorithm'', ''architecture'', ''actor_hidden_size'']
            (snd (sampled example_base 0 (\<lambda>_. 2) (\<lambda>_. 1 / 2) (\<lambda>_. False))) =
            (Inr (VList [pow2_int e, pow2_int e]), snd (sampled example_base 0 (\<lambda>_. 2) (\<lambda>_. 1 / 2) (\<lambda>_. False))) \<and>
          num (pow2_int e) = Some (power_int 2 e) \<and>
          power_int 2 (lo (actor_hidden_size example_base)) \<le> (power_int 2 e :: real) \<and>
          (power_int 2 e :: real) \<le> power_int 2 (hi (actor_hidden_size example_base))) \<and>
     (\<exists>e. lo (critic_hidden_size example_base) \<le> e \<and> e \<le> hi (critic_hidden_size example_base) \<and>
          getpath (VRef 16) [''algorithm'', ''architecture'', ''critic_hidden_size'']
            (snd (sampled example_base 0 (\<lambda>_. 2) (\<lambda>_. 1 / 2) (\<lambda>_. False))) =
            (Inr (VList [pow2_int e, pow2_int e]), snd (sampled example_base 0 (\<lambda>_. 2) (\<lambda>_. 1 / 2) (\<lambda>_. False))) \<and>
          num (pow2_int e) = Some (power_int 2 e) \<and>
          power_int 2 (lo (critic_hidden_size example_base)) \<le> (power_int 2 e :: real) \<and>
          (power_int 2 e :: real) \<le> power_int 2 (hi (critic_hidden_size example_base))))"
  using sampled_example
    power_of_two_parameters [of example_base 0 "\<lambda>_. 2" "\<lambda>_. 1 / 2" "\<lambda>_. False" "VRef 16"]
  unfolding example_trial_def by blast

text \<open>
  Claim C5. When \<^verbatim>\<open>sample_td3_params\<close> returns, the field
  \<^verbatim>\<open>algorithm.max_epochs\<close> is an integer \<open>m\<close> with
  \<open>m * n_steps \<le> n_timesteps < (m + 1) * n_steps\<close> for the positive step count stored in
  \<^verbatim>\<open>algorithm.n_steps\<close>; it is no suggested parameter of the trial.
\<close>
theorem derived_iteration_count:
  assumes "fst (sampled b k di df p) = Inr config"
  shows "\<exists>m v x.
           getpath config [''algorithm'', ''max_epochs''] (snd (sampled b k di df p)) =
             (Inr (VInt m), snd (sampled b k di df p)) \<and>
           getpath config [''algorithm'', ''n_steps''] (snd (sampled b k di df p)) =
             (Inr v, snd (sampled b k di df p)) \<and>
           num v = Some x \<and> 0 < x \<and>
           of_int m * x \<le> of_int (n_timesteps b) \<and>
           of_int (n_timesteps b) < (of_int m + 1) * x \<and>
           map_of (params (trial (snd (sampled b k di df p)))) ''max_epochs'' = None"
proof -
  from assms have w: "valid_bounds b" using sample_returns_valid by blast
  note r = sample_result [OF w, of k di df p]
  from assms have c: "config = VRef 16" unfolding r by simp
  define e where "e = int_in_range (lo (n_steps b)) (hi (n_steps b)) (di ''n_steps'')"
  have gm: "getpath config [''algorithm'', ''max_epochs''] (snd (sampled b k di df p)) =
      (Inr (VInt (epochs_of (n_timesteps b) e)), snd (sampled b k di df p))"
    unfolding r c e_def by (simp add: ev)
  have gn: "getpath config [''algorithm'', ''n_steps''] (snd (sampled b k di df p)) =
      (Inr (pow2_int e), snd (sampled b k di df p))"
    unfolding r c e_def by (simp add: ev)
  have np: "map_of (params (trial (snd (sampled b k di df p)))) ''max_epochs'' = None"
    unfolding r by simp
  have pos: "(0::real) < power_int 2 e" by simp
  show ?thesis
    using gm gn np pos num_pow2_int [of e] epochs_of_bounds [of "n_timesteps b" e] by blast
qed

theorem derived_iteration_count_witness:
  "fst (sampled example_base 0 (\<lambda>_. 2) (\<lambda>_. 1 / 2) (\<lambda>_. False)) = Inr (VRef 16) \<and>
   (\<exists>m v x.
           getpath (VRef 16) [''algorithm'', ''max_epochs''] (snd (sampled example_base 0 (\<lambda>_. 2) (\<lambda>_. 1 / 2) (\<lambda>_. False))) =
             (Inr (VInt m), snd (sampled example_base 0 (\<lambda>_. 2) (\<lambda>_. 1 / 2) (\<lambda>_. False))) \<and>
           getpath (VRef 16) [''algorithm'', ''n_steps''] (snd (sampled example_base 0 (\<lambda>_. 2) (\<lambda>_. 1 / 2) (\<lambda>_. False))) =
             (Inr v, snd (sampled example_base 0 (\<lambda>_. 2) (\<lambda>_. 1 / 2) (\<lambda>_. False))) \<and>
           num v = Some x \<and> 0 < x \<and>
           of_int m * x \<le> of_int (n_timesteps example_base) \<and>
           of_int (n_timesteps example_base) < (of_int m + 1) * x \<and>
           map_of (params (trial (snd (sampled example_base 0 (\<lambda>_. 2) (\<lambda>_. 1 / 2) (\<lambda>_. False))))) ''max_epochs'' = None)"
  using sampled_example
    derived_iteration_count [of example_base 0 "\<lambda>_. 2" "\<lambda>_. 1 / 2" "\<lambda>_. False" "VRef 16"]
  unfolding example_trial_def by blast

text \<open>
  Claim C2. In a trial whose call of the training function raised an exception,
  \<^verbatim>\<open>objective\<close> returns the NaN sentinel when the exception is
  \<^verbatim>\<open>AssertionError\<close>, and raises the exception itself when it is any other.
\<close>

theorem assertion_error_yields_nan:
  assumes "(h, c, a) \<in> set (calls (snd (objective cfg run_algo (init b (new_trial k di df p)))))"
    and "run_algo h c a = Inl e"
  shows "fst (objective cfg run_algo (init b (new_trial k di df p))) =
    (if e = AssertionError then Inr VNaN else Inl e)"
  using objective_call(5) [OF assms(1)] assms(2) by simp

theorem assertion_error_yields_nan_witness:
  "(\<exists>h c a. (h, c, a) \<in> set (calls (snd (objective cfg (\<lambda>h c a. Inl AssertionError)
                  (init example_base example_trial)))) \<and>
            (Inl AssertionError :: exn + agent) = Inl AssertionError) \<and>
   fst (objective cfg (\<lambda>h c a. Inl AssertionError) (init example_base example_trial)) =
     Inr VNaN \<and>
   (\<exists>h c a. (h, c, a) \<in> set (calls (snd (objective cfg (\<lambda>h c a. Inl KeyboardInterrupt)
                  (init example_base example_trial)))) \<and>
            (Inl KeyboardInterrupt :: exn + agent) = Inl KeyboardInterrupt) \<and>
   fst (objective cfg (\<lambda>h c a. Inl KeyboardInterrupt) (init example_base example_trial)) =
     Inl KeyboardInterrupt"
proof -
  let ?f = "\<lambda>(h::heap) (c::val) (a::agent option). (Inl AssertionError :: exn + agent)"
  let ?g = "\<lambda>(h::heap) (c::val) (a::agent option). (Inl KeyboardInterrupt :: exn + agent)"
  obtain h where h: "(h, VRef 16, None) \<in> set (calls (snd (objective cfg ?f
      (init example_base (new_trial 0 (\<lambda>_. 2) (\<lambda>_. 1 / 2) (\<lambda>_. False))))))"
    using example_call [of ?f] unfolding example_trial_def by auto
  obtain h' where h': "(h', VRef 16, None) \<in> set (calls (snd (objective cfg ?g
      (init example_base (new_trial 0 (\<lambda>_. 2) (\<lambda>_. 1 / 2) (\<lambda>_. False))))))"
    using example_call [of ?g] unfolding example_trial_def by auto
  have "fst (objective cfg ?f (init example_base example_trial)) = Inr VNaN"
    using assertion_error_yields_nan [OF h, of AssertionError] unfolding example_trial_def by simp
  moreover have "fst (objective cfg ?g (init example_base example_trial)) = Inl KeyboardInterrupt"
    using assertion_error_yields_nan [OF h', of KeyboardInterrupt] unfolding example_trial_def
    by simp
  ultimately show ?thesis using h h' unfolding example_trial_def by blast
qed

text \<open>
  Claim C8. When sampling has returned, so that no exception is raised before the loop,
  \<^verbatim>\<open>objective\<close> calls the training function exactly once, with the sampled
  configuration and \<^verbatim>\<open>None\<close>, and at that call \<^verbatim>\<open>config.algorithm.max_epoch\<close>, the
  loop bound, is 1, whatever iteration count sampling stored under \<^verbatim>\<open>max_epochs\<close>.
\<close>

theorem loop_body_runs_once:
  assumes "fst (sampled b k di df p) = Inr config"
  shows "\<exists>h. calls (snd (objective cfg run_algo (init b (new_trial k di df p)))) =
               [(h, config, None)] \<and>
             fst (getpath config [''algorithm'', ''max_epoch'']
                   \<lparr>heap = h, fresh = 0, calls = []\<rparr>) = Inr (VInt 1)"
proof -
  from assms have v: "valid_bounds b" using sample_returns_valid by blast
  from assms have c: "config = VRef 16" unfolding sample_result [OF v] by simp
  obtain h where h: "calls (snd (objective cfg run_algo (init b (new_trial k di df p)))) =
      [(h, VRef 16, None)]"
    unfolding objective_result [OF v] by simp
  then have m: "(h, VRef 16, None) \<in>
      set (calls (snd (objective cfg run_algo (init b (new_trial k di df p)))))"
    by simp
  show ?thesis using h objective_call(7) [OF m] unfolding c by blast
qed

theorem loop_body_runs_once_witness:
  "fst (sampled example_base 0 (\<lambda>_. 2) (\<lambda>_. 1 / 2) (\<lambda>_. False)) = Inr (VRef 16) \<and>
   (\<exists>h. calls (snd (objective cfg (\<lambda>h c a. Inr example_agent)
                  (init example_base example_trial))) = [(h, VRef 16, None)] \<and>
        fst (getpath (VRef 16) [''algorithm'', ''max_epoch'']
              \<lparr>heap = h, fresh = 0, calls = []\<rparr>) = Inr (VInt 1)) \<and>
   fst (getpath (VRef 16) [''algorithm'', ''max_epochs'']
         (snd (objective cfg (\<lambda>h c a. Inr example_agent)
                (init example_base example_trial)))) = Inr (VInt 1953)"
  using sampled_example example_epochs [of "\<lambda>h c a. Inr example_agent"]
    loop_body_runs_once [of example_base 0 "\<lambda>_. 2" "\<lambda>_. 1 / 2" "\<lambda>_. False" "VRef 16"
      "\<lambda>h c a. Inr example_agent"]
  unfolding example_trial_def by blast

text \<open>
  Claim C9. In a trial whose call of the training function raised \<^verbatim>\<open>AssertionError\<close>,
  \<^verbatim>\<open>objective\<close> returns NaN and leaves \<^verbatim>\<open>config.algorithm.max_epoch\<close> at 1: the
  value saved in \<^verbatim>\<open>max\<close> before the loop is not written back.
\<close>

theorem max_epoch_stays_one_on_error:
  assumes "(h, c, a) \<in> set (calls (snd (objective cfg run_algo (init b (new_trial k di df p)))))"
    and "run_algo h c a = Inl AssertionError"
  shows "fst (objective cfg run_algo (init b (new_trial k di df p))) = Inr VNaN \<and>
         getpath c [''algorithm'', ''max_epoch'']
           (snd (objective cfg run_algo (init b (new_trial k di df p)))) =
         (Inr (VInt 1), snd (objective cfg run_algo (init b (new_trial k di df p)))) \<and>
         getpath cfg [''algorithm'', ''max_epoch''] (init b (new_trial k di df p)) =
         (Inr (VInt (max_epoch b)), init b (new_trial k di df p))"
proof -
  have "fst (objective cfg run_algo (init b (new_trial k di df p))) = Inr VNaN"
    using objective_call(5) [OF assms(1)] assms(2) by simp
  moreover have "getpath cfg [''algorithm'', ''max_epoch''] (init b (new_trial k di df p)) =
         (Inr (VInt (max_epoch b)), init b (new_trial k di df p))"
    by (simp add: ev)
  ultimately show ?thesis using objective_call(6) [OF assms(1)] by blast
qed

theorem max_epoch_stays_one_on_error_witness:
  "(\<exists>h. (h, VRef 16, None) \<in> set (calls (snd (objective cfg (\<lambda>h c a. Inl AssertionError)
                  (init example_base example_trial)))) \<and>
        (Inl AssertionError :: exn + agent) = Inl AssertionError) \<and>
   fst (objective cfg (\<lambda>h c a. Inl AssertionError) (init example_base example_trial)) =
     Inr VNaN \<and>
   getpath (VRef 16) [''algorithm'', ''max_epoch'']
     (snd (objective cfg (\<lambda>h c a. Inl AssertionError) (init example_base example_trial))) =
   (Inr (VInt 1),
    snd (objective cfg (\<lambda>h c a. Inl AssertionError) (init example_base example_trial))) \<and>
   getpath cfg [''algorithm'', ''max_epoch''] (init example_base example_trial) =
   (Inr (VInt 2000), init example_base example_trial)"
proof -
  let ?f = "\<lambda>(h::heap) (c::val) (a::agent option). (Inl AssertionError :: exn + agent)"
  obtain h where h: "(h, VRef 16, None) \<in> set (calls (snd (objective cfg ?f
      (init example_base (new_trial 0 (\<lambda>_. 2) (\<lambda>_. 1 / 2) (\<lambda>_. False))))))"
    using example_call [of ?f] unfolding example_trial_def by auto
  have m: "max_epoch example_base = 2000" by (simp add: example_base_def)
  show ?thesis
    using h max_epoch_stays_one_on_error [OF h] unfolding example_trial_def m by blast
qed

text \<open>
  Claim C1, evaluated where the code departs from it. The training function returns an
  agent; the trial is not pruned and meets no \<^verbatim>\<open>AssertionError\<close>. The agent returned is
  dropped, \<^verbatim>\<open>agent\<close> is still \<^verbatim>\<open>None\<close>, and \<^verbatim>\<open>agent.is_eval\<close> raises
  \<^verbatim>\<open>AttributeError\<close>: \<^verbatim>\<open>objective\<close> returns no score, after one training call where
  sampling had derived 1953 iterations.
\<close>

theorem objective_raises_when_training_returns:
  "fst (objective cfg (\<lambda>h c a. Inr example_agent) (init example_base example_trial)) =
     Inl AttributeError \<and>
   length (calls (snd (objective cfg (\<lambda>h c a. Inr example_agent)
     (init example_base example_trial)))) = 1 \<and>
   fst (getpath (VRef 16) [''algorithm'', ''max_epochs'']
         (snd (objective cfg (\<lambda>h c a. Inr example_agent)
                (init example_base example_trial)))) = Inr (VInt 1953)"
proof -
  let ?f = "\<lambda>(h::heap) (c::val) (a::agent option). (Inr example_agent :: exn + agent)"
  obtain h where h: "calls (snd (objective cfg ?f (init example_base example_trial))) =
      [(h, VRef 16, None)]"
    using example_call [of ?f] by auto
  then have "(h, VRef 16, None) \<in> set (calls (snd (objective cfg ?f
      (init example_base (new_trial 0 (\<lambda>_. 2) (\<lambda>_. 1 / 2) (\<lambda>_. False))))))"
    unfolding example_trial_def by simp
  from objective_call(5) [OF this]
  have "fst (objective cfg ?f (init example_base example_trial)) = Inl AttributeError"
    unfolding example_trial_def by simp
  then show ?thesis using h example_epochs [of ?f] by simp
qed

text \<open>
  Claim C6, evaluated where the code departs from it. \<^verbatim>\<open>cfg.copy()\<close> copies the root
  object only, so the returned configuration and the base configuration share the object
  \<^verbatim>\<open>algorithm\<close>. Before sampling \<^verbatim>\<open>cfg.algorithm.discount_factor\<close> is the object of
  bounds; after sampling it is the sampled float; a later write to
  \<^verbatim>\<open>algorithm.discount_factor\<close> of the returned configuration shows in the base
  configuration; and sampling a second trial from the same base configuration raises
  \<^verbatim>\<open>AttributeError\<close>, the bounds being gone.
\<close>

theorem copy_shares_nested_objects:
  "getpath cfg [''algorithm'', ''discount_factor''] (init example_base example_trial) =
     (Inr (VRef 2), init example_base example_trial) \<and>
   fst (getpath cfg [''algorithm'', ''discount_factor'']
          (snd (sample_td3_params cfg (init example_base example_trial)))) =
     Inr (VFloat (9 / 10)) \<and>
   fst (getpath cfg [''algorithm'', ''discount_factor'']
          (snd (assign (VRef 16) [''algorithm''] ''discount_factor'' VNone
                 (snd (sample_td3_params cfg (init example_base example_trial)))))) =
     Inr VNone \<and>
   fst (sample_td3_params cfg
          ((snd (sample_td3_params cfg (init example_base example_trial)))
             \<lparr>trial := example_trial\<rparr>)) =
     Inl AttributeError"
proof -
  note r = sample_result [OF valid_bounds_example, of 0 "\<lambda>_. 2" "\<lambda>_. 1 / 2" "\<lambda>_. False"]
  have a: "getpath cfg [''algorithm'', ''discount_factor''] (init example_base example_trial) =
     (Inr (VRef 2), init example_base example_trial)"
    by (simp add: ev example_trial_def)
  have f: "float_in_range (lo (discount_factor example_base)) (hi (discount_factor example_base))
      (1 / 2) = 9 / 10"
    by (simp add: float_in_range_def example_base_def)
  have b: "fst (getpath cfg [''algorithm'', ''discount_factor'']
          (snd (sample_td3_params cfg (init example_base example_trial)))) =
     Inr (VFloat (9 / 10))"
    unfolding example_trial_def r by (simp add: cfg_def ev_sample f)
  have c: "fst (getpath cfg [''algorithm'', ''discount_factor'']
          (snd (assign (VRef 16) [''algorithm''] ''discount_factor'' VNone
                 (snd (sample_td3_params cfg (init example_base example_trial)))))) =
     Inr VNone"
    unfolding example_trial_def r by (simp add: cfg_def ev_sample)
  have d: "fst (sample_td3_params cfg
          ((snd (sample_td3_params cfg (init example_base example_trial)))
             \<lparr>trial := example_trial\<rparr>)) =
     Inl AttributeError"
    unfolding example_trial_def r by (simp add: cfg_def new_trial_def ev_sample sample_td3_params_def)
  show ?thesis using a b c d by blast
qed

text \<open>
  Claim C3, as stated, fails. \<^verbatim>\<open>tune\<close> gives the pruner a warm-up of
  \<^verbatim>\<open>cfg.study.n_warmup_steps // 3\<close> steps: with 30 configured warm-up steps the
  pruner has 10, and it prunes a trial whose score at step 10 is 1.0 when the one other
  trial of the study scored 5.0 at that step.
\<close>

theorem pruner_prunes_before_warmup_steps:
  "fst (make_pruner cfg (init example_base example_trial)) =
     Inr \<lparr>mp_n_startup_trials = 1, mp_n_warmup_steps = 10\<rparr> \<and>
   prune \<lparr>mp_n_startup_trials = 1, mp_n_warmup_steps = 10\<rparr> [[(10, VFloat 5)]] [(10, VFloat 1)] \<and>
   fst (last [(10::nat, VFloat 1)]) = 10 \<and>
   n_warmup_steps (study example_base) = 30"
  using example_pruner example_prune by (simp add: example_base_def)

text \<open>
  Claim C3, amended. The pruner \<^verbatim>\<open>tune\<close> constructs never prunes a trial before step
  \<^verbatim>\<open>cfg.study.n_warmup_steps // 3\<close>, and never before the study holds
  \<^verbatim>\<open>cfg.study.n_startup_trials\<close> other trials.
\<close>

theorem pruner_respects_scaled_warmup:
  assumes "fst (make_pruner cfg (init b t)) = Inr P" and "prune P others reports"
  shows "reports \<noteq> [] \<and>
         n_warmup_steps (study b) div 3 \<le> int (fst (last reports)) \<and>
         n_startup_trials (study b) \<le> int (length others)"
proof -
  from assms(1) have P: "P = \<lparr>mp_n_startup_trials = n_startup_trials (study b),
      mp_n_warmup_steps = n_warmup_steps (study b) div 3\<rparr>"
    unfolding make_pruner_result by simp
  show ?thesis using prune_gate [OF assms(2)] unfolding P by simp
qed

theorem pruner_respects_scaled_warmup_witness:
  "fst (make_pruner cfg (init example_base example_trial)) =
     Inr \<lparr>mp_n_startup_trials = 1, mp_n_warmup_steps = 10\<rparr> \<and>
   prune \<lparr>mp_n_startup_trials = 1, mp_n_warmup_steps = 10\<rparr> [[(10, VFloat 5)]] [(10, VFloat 1)] \<and>
   [(10::nat, VFloat 1)] \<noteq> [] \<and>
   n_warmup_steps (study example_base) div 3 \<le> int (fst (last [(10::nat, VFloat 1)])) \<and>
   n_startup_trials (study example_base) \<le> int (length [[(10::nat, VFloat 5)]])"
  using example_pruner example_prune
    pruner_respects_scaled_warmup [OF example_pruner example_prune]
  by blast

text \<open>
  Claim C7. The first \<open>j\<close> trials of the study end without an exception, at least one
  of them completed, and the next trial, within the budget, is interrupted. Then
  \<^verbatim>\<open>tune\<close> does not raise: it returns its report, whose table holds the \<open>j\<close> trials
  followed by the interrupted one, marked failed, whose count of finished trials is the
  length of the table, and whose best trial is a completed trial of greatest value.
\<close>

theorem interrupt_ends_search_and_reports:
  assumes "fst (optimize j (objective_fn cfg run_algo) (study_start b d)) = Inr ()"
    and "fst (run_trial (objective_fn cfg run_algo)
               (snd (optimize j (objective_fn cfg run_algo) (study_start b d)))) =
         Inl KeyboardInterrupt"
    and "j < n_trials (study b)"
    and "completed (trials (snd (optimize j (objective_fn cfg run_algo) (study_start b d)))) \<noteq> []"
  shows "\<exists>rep S t.
           tune objective_fn cfg run_algo (init_study b d) = (Inr rep, S) \<and>
           table rep =
             trials (snd (optimize j (objective_fn cfg run_algo) (study_start b d))) @ [t] \<and>
           ft_state t = FAIL \<and>
           n_finished rep = length (table rep) \<and>
           best rep \<in>
             set (completed
                    (trials (snd (optimize j (objective_fn cfg run_algo) (study_start b d))))) \<and>
           (\<forall>u \<in> set (completed
                    (trials (snd (optimize j (objective_fn cfg run_algo) (study_start b d))))).
              value_of u \<le> value_of (best rep))"
proof -
  define f where "f = objective_fn cfg run_algo"
  obtain Sj where Sj: "optimize j f (study_start b d) = (Inr (), Sj)"
    using assms(1) unfolding f_def by (cases "optimize j (objective_fn cfg run_algo) (study_start b d)") auto
  obtain S1 where S1: "run_trial f Sj = (Inl KeyboardInterrupt, S1)"
    using assms(2) Sj unfolding f_def by (cases "run_trial (objective_fn cfg run_algo) Sj") auto
  have ne: "completed (trials Sj) \<noteq> []" using assms(4) Sj unfolding f_def by simp
  from run_trial_raises [of f Sj KeyboardInterrupt] S1
  obtain t where t: "trials S1 = trials Sj @ [t]" "ft_state t = FAIL" by auto
  have c: "completed (trials S1) = completed (trials Sj)"
    using t by (simp add: completed_def)
  obtain u us where u: "completed (trials Sj) = u # us" using ne by (cases "completed (trials Sj)") auto
  have o: "optimize (n_trials (study b)) (objective_fn cfg run_algo) (study_start b d) =
      (Inl KeyboardInterrupt, S1)"
    using optimize_interrupted [OF Sj S1 assms(3)] unfolding f_def .
  have r: "tune objective_fn cfg run_algo (init_study b d) =
      (Inr \<lparr>n_finished = length (trials S1), best = best_of u us, table = trials S1\<rparr>, S1)"
    unfolding tune_after_optimize [where f = objective_fn and run_algo = run_algo, OF o]
    by (simp add: c u)
  have m: "best_of u us \<in> set (completed (trials Sj))"
    using best_of_mem [of u us] unfolding u by simp
  have x: "\<forall>w \<in> set (completed (trials Sj)). value_of w \<le> value_of (best_of u us)"
    using best_of_max [of _ u us] unfolding u by blast
  have sj: "snd (optimize j (objective_fn cfg run_algo) (study_start b d)) = Sj"
    using Sj unfolding f_def by simp
  show ?thesis unfolding sj r using t m x by simp
qed

theorem interrupt_ends_search_and_reports_witness:
  "fst (optimize 3 (scenario_objective cfg example_run_algo)
         (study_start example_base example_draws)) = Inr () \<and>
   fst (run_trial (scenario_objective cfg example_run_algo)
         (snd (optimize 3 (scenario_objective cfg example_run_algo)
                (study_start example_base example_draws)))) = Inl KeyboardInterrupt \<and>
   3 < n_trials (study example_base) \<and>
   completed (trials (snd (optimize 3 (scenario_objective cfg example_run_algo)
                (study_start example_base example_draws)))) \<noteq> [] \<and>
   (\<exists>rep S t.
      tune scenario_objective cfg example_run_algo (init_study example_base example_draws) =
        (Inr rep, S) \<and>
      table rep =
        trials (snd (optimize 3 (scenario_objective cfg example_run_algo)
                (study_start example_base example_draws))) @ [t] \<and>
      ft_state t = FAIL \<and>
      n_finished rep = 4 \<and>
      value_of (best rep) = 5 / 2)"
proof -
  let ?S = "snd (optimize 3 (scenario_objective cfg example_run_algo)
                (study_start example_base example_draws))"
  have a: "fst (optimize 3 (scenario_objective cfg example_run_algo)
         (study_start example_base example_draws)) = Inr ()"
    unfolding scenario_three by simp
  have c: "3 < n_trials (study example_base)" by (simp add: example_base_def)
  have d: "completed (trials ?S) \<noteq> []"
    unfolding scenario_three by (simp add: completed_def)
  from interrupt_ends_search_and_reports
    [where objective_fn = scenario_objective and run_algo = example_run_algo,
      OF a scenario_fourth c d]
  obtain rep S t where r:
    "tune scenario_objective cfg example_run_algo (init_study example_base example_draws) =
       (Inr rep, S)"
    "table rep = trials ?S @ [t]" "ft_state t = FAIL" "n_finished rep = length (table rep)"
    "best rep \<in> set (completed (trials ?S))"
    "\<forall>u \<in> set (completed (trials ?S)). value_of u \<le> value_of (best rep)"
    by blast
  have n: "n_finished rep = 4" using r(2,4) unfolding scenario_three by simp
  have "value_of (best rep) \<in> {1, 5 / 2, 3 / 10}"
    using r(5) unfolding scenario_three by (auto simp: completed_def value_of_def)
  moreover have "5 / 2 \<le> value_of (best rep)"
    using r(6) unfolding scenario_three by (simp add: completed_def value_of_def)
  ultimately have v: "value_of (best rep) = 5 / 2" by auto
  show ?thesis using a scenario_fourth c d r(1,2,3) n v by blast
qed


end
